theory Spec2Isabelle
  imports Main "HOL-Library.Sublist" "HOL-Library.AList" "HOL-Library.Word"
    "HOL-Library.List_Lexorder" "HOL-Library.Char_ord"
begin

section \<open>Group downloader (unitstatushandler/groupdownloader.go)\<close>

text \<open>
  \<^verbatim>\<open>download\<close> starts one download per id of the request map, waits for all of
  them and returns a map from id to \<^verbatim>\<open>downloadResult\<close>. The byte downloader
  is an interface of the package; its answers are an input of the model:
  \<open>DownloadFails err\<close> when \<^verbatim>\<open>Download\<close> itself returns \<open>err\<close>,
  \<open>WaitFails fileName err\<close> when the handle is returned and \<^verbatim>\<open>Wait\<close>
  returns \<open>err\<close>, \<open>Succeeds fileName\<close> when \<^verbatim>\<open>Wait\<close> returns nil.

  The request and the result are Go maps, modelled as association lists with
  distinct keys; the order of the list stands for the order in which the
  \<^verbatim>\<open>range\<close> loops visit the map, which Go leaves unspecified, so every
  statement below is for an arbitrary order. The goroutines that wait for the
  single downloads write only their own entry of the result and call the
  idempotent cancel function; the model runs their bodies one after the other
  when \<^verbatim>\<open>wg.Wait\<close> is reached. The callbacks of one id are delivered in the
  order the model gives; callbacks of different ids may interleave differently.
\<close>

record downloadResult =
  FileName :: string
  Error :: string

datatype outcome = DownloadFails string | WaitFails string string | Succeeds string

type_synonym statusEvent = "string \<times> string \<times> string"

record gdState =
  result :: "(string \<times> downloadResult) list"
  notified :: "statusEvent list"
  cancelCalled :: bool

text \<open>The status names of cloudprotocol, as the specification gives them.\<close>

definition DownloadingStatus :: string where
  "DownloadingStatus = ''downloading''"

definition DownloadedStatus :: string where
  "DownloadedStatus = ''downloaded''"

definition ErrorStatus :: string where
  "ErrorStatus = ''error''"

text \<open>\<^verbatim>\<open>context.Canceled.Error()\<close> of the Go standard library.\<close>

definition contextCanceled :: string where
  "contextCanceled = ''context canceled''"

text \<open>
  \<^verbatim>\<open>aoserrors.Wrap(err).Error()\<close>: the message of the error followed by the
  place of the call in square brackets. The place is a parameter.
\<close>

definition Wrap :: "string \<Rightarrow> string \<Rightarrow> string" where
  "Wrap loc msg = msg @ '' ['' @ loc @ '']''"

text \<open>\<^verbatim>\<open>strings.Contains(errString, context.Canceled.Error())\<close>\<close>

definition isCancelError :: "string \<Rightarrow> bool" where
  "isCancelError errString = sublist contextCanceled errString"

definition updateStatus :: "gdState \<Rightarrow> string \<Rightarrow> string \<Rightarrow> string \<Rightarrow> gdState" where
  "updateStatus st ident status componentErr =
     st\<lparr>notified := notified st @ [(ident, status, componentErr)]\<rparr>"

text \<open>The closure \<^verbatim>\<open>handleError\<close> of \<^verbatim>\<open>download\<close>.\<close>

definition handleError :: "string \<Rightarrow> bool \<Rightarrow> gdState \<Rightarrow> string \<Rightarrow> string \<Rightarrow> gdState" where
  "handleError loc continueOnError st ident err =
     (let errorStr = Wrap loc err;
          st1 = (if \<not> isCancelError errorStr
                 then updateStatus
                        (st\<lparr>result := AList.map_entry ident (\<lambda>r. r\<lparr>Error := errorStr\<rparr>) (result st)\<rparr>)
                        ident ErrorStatus errorStr
                 else st)
      in if \<not> continueOnError then st1\<lparr>cancelCalled := True\<rparr> else st1)"

text \<open>What \<^verbatim>\<open>Download\<close> returns: the error, or the handle (here its file name).\<close>

fun downloadCall :: "outcome \<Rightarrow> string + string" where
  "downloadCall (DownloadFails err) = Inl err"
| "downloadCall (WaitFails fileName err) = Inr fileName"
| "downloadCall (Succeeds fileName) = Inr fileName"

text \<open>What \<^verbatim>\<open>Wait\<close> returns on a handle: the error, or nil.\<close>

fun waitCall :: "outcome \<Rightarrow> string option" where
  "waitCall (DownloadFails err) = None"
| "waitCall (WaitFails fileName err) = Some err"
| "waitCall (Succeeds fileName) = None"

text \<open>First loop: an empty result and the status \<open>downloading\<close> for every id.\<close>

fun initResults :: "(string \<times> 'p) list \<Rightarrow> gdState \<Rightarrow> gdState" where
  "initResults [] st = st"
| "initResults ((ident, item) # request) st =
     initResults request
       (updateStatus
          (st\<lparr>result := AList.update ident \<lparr>FileName = [], Error = []\<rparr> (result st)\<rparr>)
          ident DownloadingStatus [])"

text \<open>
  Second loop: call \<^verbatim>\<open>Download\<close> for every item; on an error handle it and,
  unless \<open>continueOnError\<close>, leave the loop. The started handles are collected
  for the goroutines.
\<close>

fun startDownloads ::
  "string \<Rightarrow> bool \<Rightarrow> (string \<Rightarrow> 'p \<Rightarrow> outcome) \<Rightarrow> (string \<times> 'p) list \<Rightarrow> gdState \<Rightarrow>
   (string \<times> outcome) list \<Rightarrow> gdState \<times> (string \<times> outcome) list" where
  "startDownloads loc continueOnError downloader [] st spawned = (st, spawned)"
| "startDownloads loc continueOnError downloader ((ident, item) # request) st spawned =
     (case downloadCall (downloader ident item) of
        Inl err \<Rightarrow>
          (let st' = handleError loc continueOnError st ident err
           in if \<not> continueOnError then (st', spawned)
              else startDownloads loc continueOnError downloader request st' spawned)
      | Inr fileName \<Rightarrow>
          startDownloads loc continueOnError downloader request
            (st\<lparr>result := AList.map_entry ident (\<lambda>r. r\<lparr>FileName := fileName\<rparr>) (result st)\<rparr>)
            (spawned @ [(ident, downloader ident item)]))"

text \<open>The goroutines: wait for each started download.\<close>

fun waitDownloads :: "string \<Rightarrow> bool \<Rightarrow> (string \<times> outcome) list \<Rightarrow> gdState \<Rightarrow> gdState" where
  "waitDownloads loc continueOnError [] st = st"
| "waitDownloads loc continueOnError ((ident, itemResult) # spawned) st =
     waitDownloads loc continueOnError spawned
       (case waitCall itemResult of
          Some err \<Rightarrow> handleError loc continueOnError st ident err
        | None \<Rightarrow> updateStatus st ident DownloadedStatus [])"

text \<open>Last loop, run when the download context is cancelled.\<close>

fun markCanceled :: "string \<Rightarrow> string list \<Rightarrow> gdState \<Rightarrow> gdState" where
  "markCanceled loc [] st = st"
| "markCanceled loc (ident # idents) st =
     markCanceled loc idents
       (case map_of (result st) ident of
          None \<Rightarrow> st
        | Some item \<Rightarrow>
            if Error item = []
            then (let e = Wrap loc contextCanceled
                  in updateStatus
                       (st\<lparr>result := AList.map_entry ident (\<lambda>r. r\<lparr>Error := e\<rparr>) (result st)\<rparr>)
                       ident ErrorStatus e)
            else st)"

text \<open>
  \<open>parentCancelled\<close> says whether the context passed by the caller is cancelled
  when the downloads have been waited for; the download context is cancelled
  when its parent is or when the cancel function was called.
\<close>

definition downloadState ::
  "string \<Rightarrow> bool \<Rightarrow> (string \<times> 'p) list \<Rightarrow> bool \<Rightarrow> (string \<Rightarrow> 'p \<Rightarrow> outcome) \<Rightarrow> gdState" where
  "downloadState loc parentCancelled request continueOnError downloader =
     (let st0 = initResults request \<lparr>result = [], notified = [], cancelCalled = False\<rparr>;
          (st1, spawned) = startDownloads loc continueOnError downloader request st0 [];
          st2 = waitDownloads loc continueOnError spawned st1
      in if cancelCalled st2 \<or> parentCancelled
         then markCanceled loc (map fst (result st2)) st2
         else st2)"

definition download ::
  "string \<Rightarrow> bool \<Rightarrow> (string \<times> 'p) list \<Rightarrow> bool \<Rightarrow> (string \<Rightarrow> 'p \<Rightarrow> outcome) \<Rightarrow>
   (string \<times> downloadResult) list" where
  "download loc parentCancelled request continueOnError downloader =
     result (downloadState loc parentCancelled request continueOnError downloader)"

fun getDownloadError :: "(string \<times> downloadResult) list \<Rightarrow> string" where
  "getDownloadError [] = []"
| "getDownloadError ((ident, item) # res) =
     (if Error item \<noteq> [] \<and> \<not> isCancelError (Error item) then Error item
      else getDownloadError res)"

subsection \<open>Notions used to state the properties of the group downloader\<close>

text \<open>The error of an item whose download fails, whichever call reports it.\<close>

fun failure :: "outcome \<Rightarrow> string option" where
  "failure (DownloadFails err) = Some err"
| "failure (WaitFails fileName err) = Some err"
| "failure (Succeeds fileName) = None"

text \<open>
  The string \<^verbatim>\<open>handleError\<close> stores for an item: the wrapped error, unless
  it is recognised as a cancellation error.
\<close>

definition recorded :: "string \<Rightarrow> outcome \<Rightarrow> string option" where
  "recorded loc oc =
     (case failure oc of
        None \<Rightarrow> None
      | Some err \<Rightarrow> if isCancelError (Wrap loc err) then None else Some (Wrap loc err))"

text \<open>
  The entries of the request that the second loop reaches: all of them, or, when
  \<open>continueOnError\<close> is false, those up to the first one whose
  \<^verbatim>\<open>Download\<close> call fails (the \<^verbatim>\<open>break\<close>).
\<close>

fun attempted :: "bool \<Rightarrow> (string \<Rightarrow> 'p \<Rightarrow> outcome) \<Rightarrow> (string \<times> 'p) list \<Rightarrow> (string \<times> 'p) list" where
  "attempted c d [] = []"
| "attempted c d ((i, it) # req) =
     (i, it) # (case downloadCall (d i it) of
                  Inl err \<Rightarrow> if \<not> c then [] else attempted c d req
                | Inr fileName \<Rightarrow> attempted c d req)"


definition errOf :: "gdState \<Rightarrow> string \<Rightarrow> string option" where
  "errOf st k = map_option Error (map_of (result st) k)"

text \<open>The parts of \<open>recorded\<close> that come from each of the two calls.\<close>

definition dlRecorded :: "string \<Rightarrow> outcome \<Rightarrow> string option" where
  "dlRecorded loc oc =
     (case downloadCall oc of
        Inl err \<Rightarrow> if isCancelError (Wrap loc err) then None else Some (Wrap loc err)
      | Inr fileName \<Rightarrow> None)"

definition wtRecorded :: "string \<Rightarrow> outcome \<Rightarrow> string option" where
  "wtRecorded loc oc =
     (case waitCall oc of
        Some err \<Rightarrow> if isCancelError (Wrap loc err) then None else Some (Wrap loc err)
      | None \<Rightarrow> None)"

text \<open>One round of the last loop, and the state before the last loop.\<close>

definition markStep :: "string \<Rightarrow> string \<Rightarrow> gdState \<Rightarrow> gdState" where
  "markStep loc i st =
     (case map_of (result st) i of
          None \<Rightarrow> st
        | Some item \<Rightarrow>
            if Error item = []
            then (let e = Wrap loc contextCanceled
                  in updateStatus
                       (st\<lparr>result := AList.map_entry i (\<lambda>r. r\<lparr>Error := e\<rparr>) (result st)\<rparr>)
                       i ErrorStatus e)
            else st)"

definition spawnedOf :: "(string \<Rightarrow> 'p \<Rightarrow> outcome) \<Rightarrow> (string \<times> 'p) list \<Rightarrow> (string \<times> outcome) list" where
  "spawnedOf d att = map (\<lambda>(i, it). (i, d i it)) (filter (\<lambda>(i, it). \<not> isl (downloadCall (d i it))) att)"

definition gd0 :: gdState where
  "gd0 = \<lparr>result = [], notified = [], cancelCalled = False\<rparr>"

definition phase2 :: "string \<Rightarrow> (string \<times> 'p) list \<Rightarrow> bool \<Rightarrow> (string \<Rightarrow> 'p \<Rightarrow> outcome) \<Rightarrow> gdState" where
  "phase2 loc request c d =
     waitDownloads loc c (spawnedOf d (attempted c d request))
       (fst (startDownloads loc c d request (initResults request gd0) []))"

text \<open>
  What is stored and notified for an entry of the request because of its own
  outcome: nothing when the loop never reached it.
\<close>

definition recordedFor ::
  "string \<Rightarrow> bool \<Rightarrow> (string \<Rightarrow> 'p \<Rightarrow> outcome) \<Rightarrow> (string \<times> 'p) list \<Rightarrow> string \<Rightarrow> 'p \<Rightarrow> string option" where
  "recordedFor loc c d request k item =
     (if (k, item) \<in> set (attempted c d request) then recorded loc (d k item) else None)"


text \<open>\<^verbatim>\<open>downloadCtx.Err() != nil\<close> when the downloads have been waited for.\<close>

definition groupCancelled :: "string \<Rightarrow> bool \<Rightarrow> (string \<times> 'p) list \<Rightarrow> bool \<Rightarrow> (string \<Rightarrow> 'p \<Rightarrow> outcome) \<Rightarrow> bool" where
  "groupCancelled loc pc request c d = (cancelCalled (downloadState loc pc request c d) \<or> pc)"

text \<open>A request of three items of which the second fails while the others finish.\<close>

definition exampleRequest :: "(string \<times> unit) list" where
  "exampleRequest = [(''a'', ()), (''b'', ()), (''c'', ())]"

definition exampleDownloader :: "string \<Rightarrow> unit \<Rightarrow> outcome" where
  "exampleDownloader i p =
     (if i = ''b'' then WaitFails ''fb'' ''download error'' else Succeeds (''f'' @ i))"



section \<open>Launcher (launcher/launcher.go)\<close>

text \<open>
  The launcher keeps a list of pointers to node states and changes the nodes
  through them. In the model the launcher holds the list of node states and a
  pointer to a node is its position in that list; a list of pointers (the
  candidates of a placement) is a list of positions. Go's \<^verbatim>\<open>int\<close> is modelled
  by \<open>int\<close>, \<^verbatim>\<open>uint64\<close> quantities that are only compared by \<open>nat\<close>, and
  those on which the code subtracts by \<open>64 word\<close>.
\<close>

subsection \<open>Data\<close>

record nodeDevice =
  name :: string
  sharedCount :: int
  allocatedCount :: int

record InstanceIdent =
  ServiceID :: string
  SubjectID :: string
  Instance :: nat

text \<open>\<^verbatim>\<open>cloudprotocol.InstanceInfo\<close>: one desired group of instances.\<close>

record DesiredInstance =
  desServiceID :: string
  desSubjectID :: string
  desPriority :: nat
  NumInstances :: nat
  Labels :: "string list"

text \<open>\<^verbatim>\<open>aostypes.NetworkParameters\<close>, the answer of the network manager.\<close>

record NetworkParams =
  IP :: string
  Subnet :: string
  DNSServers :: "string list"

text \<open>\<^verbatim>\<open>networkmanager.NetworkParameters\<close>, what the launcher asks for.\<close>

record NetworkRequest =
  Hosts :: "string list"
  ExposePorts :: "string list"
  AllowConnections :: "string list"

text \<open>\<^verbatim>\<open>aostypes.InstanceInfo\<close>, an instance of a run request.\<close>

record InstanceInfo =
  Ident :: InstanceIdent
  UID :: "32 word"
  Priority :: nat
  StoragePath :: string
  StatePath :: string
  NetworkParameters :: NetworkParams

text \<open>\<^verbatim>\<open>launcher.InstanceInfo\<close>, the record of an instance in the storage.\<close>

record StoredInstance =
  storedIdent :: InstanceIdent
  storedUID :: int

text \<open>
  \<^verbatim>\<open>cloudprotocol.InstanceStatus\<close>. \<open>ErrorInfo\<close> is the message of the pointed
  error information, \<open>None\<close> for a nil pointer.
\<close>

record InstanceStatus =
  statusIdent :: InstanceIdent
  AosVersion :: nat
  RunState :: string
  statusNodeID :: string
  StateChecksum :: string
  ErrorInfo :: "string option"

text \<open>
  \<^verbatim>\<open>aostypes.ServiceInfo\<close> and \<^verbatim>\<open>aostypes.LayerInfo\<close>, the entries of a run
  request. The fields the launcher never reads (check sums, sizes, vendor
  version) are one opaque value, so that equality is \<^verbatim>\<open>reflect.DeepEqual\<close>.
\<close>

record ServiceInfo =
  serviceAosVersion :: nat
  ID :: string
  ProviderID :: string
  URL :: string
  GID :: nat
  serviceRest :: string

record LayerInfo =
  layerID :: string
  Digest :: string
  layerURL :: string
  layerRest :: string

text \<open>
  \<^verbatim>\<open>aostypes.ServiceConfig\<close>, the fields the launcher reads. Of a service device
  only the name is read. \<open>AllowedConnections\<close> is the key set of a Go map.
\<close>

record ServiceConfig =
  Runner :: string
  Devices :: "string list"
  Resources :: "string list"
  Hostname :: "string option"
  StateLimit :: "nat option"
  StorageLimit :: "nat option"
  AllowedConnections :: "string set"

text \<open>\<^verbatim>\<open>imagemanager.ServiceInfo\<close> and \<^verbatim>\<open>imagemanager.LayerInfo\<close>.\<close>

record ImageServiceInfo =
  Service :: ServiceInfo
  RemoteURL :: string
  Cached :: bool
  Config :: ServiceConfig
  Layers :: "string list"
  ExposedPorts :: "string list"

record ImageLayerInfo =
  Layer :: LayerInfo
  layerRemoteURL :: string

record runRequestInfo =
  services :: "ServiceInfo list"
  layers :: "LayerInfo list"
  instances :: "InstanceInfo list"

text \<open>
  \<^verbatim>\<open>nodeStatus\<close> with the fields of the embedded \<^verbatim>\<open>NodeInfo\<close> that are read.
  \<open>currentRunRequest\<close> is a pointer in the source, nil until the first
  balancing; every function that follows it runs after \<^verbatim>\<open>performNodeBalancing\<close>
  has set it, so the model holds the request itself.
\<close>

record nodeStatus =
  NodeID :: string
  NodeType :: string
  TotalRAM :: "64 word"
  NumCPUs :: "64 word"
  RemoteNode :: bool
  RunnerFeature :: "string list"
  availableResources :: "string list"
  availableLabels :: "string list"
  availableDevices :: "nodeDevice list"
  priority :: nat
  receivedRunInstances :: "InstanceStatus list"
  currentRunRequest :: runRequestInfo
  waitStatus :: bool

subsection \<open>Device accounting\<close>

text \<open>
  \<^verbatim>\<open>nodeHasDesiredDevices\<close>: the inner loop looks for a device of the node with
  the desired name that has \<open>sharedCount = 0\<close> or is not fully allocated.
\<close>

fun deviceAvailable :: "nodeDevice list \<Rightarrow> string \<Rightarrow> bool" where
  "deviceAvailable [] desiredDevice = False"
| "deviceAvailable (nodeDev # devs) desiredDevice =
     (if desiredDevice \<noteq> name nodeDev then deviceAvailable devs desiredDevice
      else if sharedCount nodeDev = 0 \<or> allocatedCount nodeDev \<noteq> sharedCount nodeDev then True
      else deviceAvailable devs desiredDevice)"

fun hasDesiredDevices :: "nodeDevice list \<Rightarrow> string list \<Rightarrow> bool" where
  "hasDesiredDevices devs [] = True"
| "hasDesiredDevices devs (desiredDevice # desiredDevices) =
     (if deviceAvailable devs desiredDevice then hasDesiredDevices devs desiredDevices else False)"

definition nodeHasDesiredDevices :: "nodeStatus \<Rightarrow> string list \<Rightarrow> bool" where
  "nodeHasDesiredDevices node desiredDevices = hasDesiredDevices (availableDevices node) desiredDevices"

text \<open>
  \<^verbatim>\<open>allocateDevices\<close>. The inner loop takes the first device with the name of
  the service device and a shared count other than zero: it fails when that
  device is fully allocated and counts one allocation otherwise; it fails too
  when it finds no such device. Allocations made for earlier service devices
  stay when a later one fails, so the devices are returned in both cases.
\<close>

fun allocateDevice :: "nodeDevice list \<Rightarrow> string \<Rightarrow> nodeDevice list option" where
  "allocateDevice [] serviceDevice = None"
| "allocateDevice (nodeDev # devs) serviceDevice =
     (if name nodeDev \<noteq> serviceDevice then map_option ((#) nodeDev) (allocateDevice devs serviceDevice)
      else if sharedCount nodeDev \<noteq> 0
      then (if allocatedCount nodeDev = sharedCount nodeDev then None
            else Some (nodeDev\<lparr>allocatedCount := allocatedCount nodeDev + 1\<rparr> # devs))
      else map_option ((#) nodeDev) (allocateDevice devs serviceDevice))"

fun allocateAll :: "nodeDevice list \<Rightarrow> string list \<Rightarrow> string option \<times> nodeDevice list" where
  "allocateAll devs [] = (None, devs)"
| "allocateAll devs (serviceDevice # serviceDevices) =
     (case allocateDevice devs serviceDevice of
        None \<Rightarrow> (Some (''can't allocate device: '' @ serviceDevice), devs)
      | Some devs' \<Rightarrow> allocateAll devs' serviceDevices)"

definition allocateDevices :: "nodeStatus \<Rightarrow> string list \<Rightarrow> string option \<times> nodeStatus" where
  "allocateDevices node serviceDevices =
     (case allocateAll (availableDevices node) serviceDevices of
        (err, devs) \<Rightarrow> (err, node\<lparr>availableDevices := devs\<rparr>))"

text \<open>\<^verbatim>\<open>releaseDevices\<close>, the mirror image of \<^verbatim>\<open>allocateDevices\<close>.\<close>

fun releaseDevice :: "nodeDevice list \<Rightarrow> string \<Rightarrow> nodeDevice list option" where
  "releaseDevice [] serviceDevice = None"
| "releaseDevice (nodeDev # devs) serviceDevice =
     (if name nodeDev \<noteq> serviceDevice then map_option ((#) nodeDev) (releaseDevice devs serviceDevice)
      else if sharedCount nodeDev \<noteq> 0
      then (if allocatedCount nodeDev = 0 then None
            else Some (nodeDev\<lparr>allocatedCount := allocatedCount nodeDev - 1\<rparr> # devs))
      else map_option ((#) nodeDev) (releaseDevice devs serviceDevice))"

fun releaseAll :: "nodeDevice list \<Rightarrow> string list \<Rightarrow> string option \<times> nodeDevice list" where
  "releaseAll devs [] = (None, devs)"
| "releaseAll devs (serviceDevice # serviceDevices) =
     (case releaseDevice devs serviceDevice of
        None \<Rightarrow> (Some (''can't release device: '' @ serviceDevice), devs)
      | Some devs' \<Rightarrow> releaseAll devs' serviceDevices)"

definition releaseDevices :: "nodeStatus \<Rightarrow> string list \<Rightarrow> string option \<times> nodeStatus" where
  "releaseDevices node serviceDevices =
     (case releaseAll (availableDevices node) serviceDevices of
        (err, devs) \<Rightarrow> (err, node\<lparr>availableDevices := devs\<rparr>))"

text \<open>\<^verbatim>\<open>resetDeviceAllocation\<close>, on the list of all nodes.\<close>

definition resetDevices :: "nodeStatus \<Rightarrow> nodeStatus" where
  "resetDevices node =
     node\<lparr>availableDevices := map (\<lambda>d. d\<lparr>allocatedCount := 0\<rparr>) (availableDevices node)\<rparr>"

subsection \<open>Choice of the node\<close>

definition defaultRunner :: string where
  "defaultRunner = ''crun''"

definition defaultRunnerFeatures :: "string list" where
  "defaultRunnerFeatures = [''crun'', ''runc'']"

text \<open>
  The filters take the node states and the candidate pointers and return the
  candidates that pass, in the order they had.
\<close>

definition getNodeByRunner :: "nodeStatus list \<Rightarrow> nat list \<Rightarrow> string \<Rightarrow> nat list" where
  "getNodeByRunner ns allNodes runner =
     (let runner' = (if runner = [] then defaultRunner else runner)
      in filter (\<lambda>i. (RunnerFeature (ns ! i) = [] \<and> runner' \<in> set defaultRunnerFeatures)
                      \<or> runner' \<in> set (RunnerFeature (ns ! i))) allNodes)"

definition getNodesByLabels :: "nodeStatus list \<Rightarrow> nat list \<Rightarrow> string list \<Rightarrow> nat list" where
  "getNodesByLabels ns cands desiredLabels =
     (if desiredLabels = [] then cands
      else filter (\<lambda>i. availableLabels (ns ! i) \<noteq> []
                      \<and> list_all (\<lambda>l. l \<in> set (availableLabels (ns ! i))) desiredLabels) cands)"

definition getNodesByResources :: "nodeStatus list \<Rightarrow> nat list \<Rightarrow> string list \<Rightarrow> nat list" where
  "getNodesByResources ns cands desiredResources =
     (if desiredResources = [] then cands
      else filter (\<lambda>i. availableResources (ns ! i) \<noteq> []
                      \<and> list_all (\<lambda>r. r \<in> set (availableResources (ns ! i))) desiredResources) cands)"

text \<open>
  \<^verbatim>\<open>getNodesByStaticResources\<close>. The messages are built with \<^verbatim>\<open>%s\<close> and
  \<^verbatim>\<open>%v\<close>; the rendering of a list by \<^verbatim>\<open>%v\<close> is \<open>showList\<close>.
\<close>

definition showList :: "string list \<Rightarrow> string" where
  "showList xs = ''['' @ concat (case xs of [] \<Rightarrow> [] | y # ys \<Rightarrow> y # map (\<lambda>s. '' '' @ s) ys) @ '']''"

definition getNodesByStaticResources ::
  "nodeStatus list \<Rightarrow> nat list \<Rightarrow> ImageServiceInfo \<Rightarrow> DesiredInstance \<Rightarrow> string + nat list" where
  "getNodesByStaticResources ns allNodes serviceInfo instanceInfo =
     (let byRunner = getNodeByRunner ns allNodes (Runner (Config serviceInfo))
      in if byRunner = [] then Inl (''no node with runner ['' @ Runner (Config serviceInfo) @ '']'')
         else let byLabels = getNodesByLabels ns byRunner (Labels instanceInfo)
              in if byLabels = [] then Inl (''no node with labels '' @ showList (Labels instanceInfo))
                 else let byResources = getNodesByResources ns byLabels (Resources (Config serviceInfo))
                      in if byResources = []
                         then Inl (''no node with resources '' @ showList (Resources (Config serviceInfo)))
                         else Inr byResources)"

definition getNodesByDevices :: "nodeStatus list \<Rightarrow> nat list \<Rightarrow> string list \<Rightarrow> string + nat list" where
  "getNodesByDevices ns availableNodes desiredDevices =
     (if desiredDevices = [] then Inr availableNodes
      else let nodes = filter (\<lambda>i. nodeHasDesiredDevices (ns ! i) desiredDevices) availableNodes
           in if nodes = [] then Inl ''no available device found'' else Inr nodes)"

text \<open>
  \<^verbatim>\<open>getMostPriorityNode\<close>: the first candidate of the highest priority. On an
  empty list the source reads \<^verbatim>\<open>nodes[0]\<close> and panics: \<open>None\<close>.
\<close>

fun maxPriorityFrom :: "nodeStatus list \<Rightarrow> nat \<Rightarrow> nat list \<Rightarrow> nat" where
  "maxPriorityFrom ns best [] = best"
| "maxPriorityFrom ns best (i # rest) =
     maxPriorityFrom ns (if priority (ns ! best) < priority (ns ! i) then i else best) rest"

fun getMostPriorityNode :: "nodeStatus list \<Rightarrow> nat list \<Rightarrow> nat option" where
  "getMostPriorityNode ns [] = None"
| "getMostPriorityNode ns (first # rest) = Some (maxPriorityFrom ns first rest)"

subsection \<open>Collaborators\<close>

text \<open>
  The launcher reaches its collaborators through interfaces. Those that only
  answer are functions of the environment \<open>Env\<close>. The network manager changes
  with the calls it receives: its state is the list of these calls, and its
  answers are functions of that list. An \<^verbatim>\<open>aoserrors\<close> error is modelled by its
  message, without the place of the call that its rendering appends.
\<close>

record NodeUnitConfig =
  cfgPriority :: nat
  cfgLabels :: "string list"
  cfgResources :: "string list"
  cfgDevices :: "(string \<times> int) list"

record NodeInfo =
  infoNodeID :: string
  infoNodeType :: string
  infoTotalRAM :: "64 word"
  infoNumCPUs :: "64 word"
  infoRemoteNode :: bool
  infoRunnerFeature :: "string list"

record MonitoringData =
  RAM :: "64 word"
  CPU :: "64 word"

record SetupParams =
  setupIdent :: InstanceIdent
  setupUID :: int
  setupGID :: nat
  StateQuota :: nat
  StorageQuota :: nat

datatype netCall =
    UpdateProviderNetwork "string list" string
  | RemoveInstanceNetworkParameters InstanceIdent string
  | PrepareInstanceNetworkParameters InstanceIdent string NetworkRequest
  | RestartDNSServer

datatype storageError = ErrNotExist | StorageFailure string

record Env =
  NodeIDs :: "string list"
  GetServiceInfo :: "string \<Rightarrow> string + ImageServiceInfo"
  GetLayerInfo :: "string \<Rightarrow> string + ImageLayerInfo"
  GetUnitConfiguration :: "string \<Rightarrow> NodeUnitConfig"
  GetNodeConfiguration :: "string \<Rightarrow> string + NodeInfo"
  GetNodeMonitoringData :: "string \<Rightarrow> string + MonitoringData"
  RunInstancesError :: "string \<Rightarrow> string option"
  Setup :: "SetupParams \<Rightarrow> string + string \<times> string"
  GetInstanceCheckSum :: "InstanceIdent \<Rightarrow> string"
  networkAnswer :: "netCall list \<Rightarrow> InstanceIdent \<Rightarrow> string \<Rightarrow> NetworkRequest \<Rightarrow> string + NetworkParams"
  networkInstances :: "netCall list \<Rightarrow> InstanceIdent list"
  storageFailure :: "InstanceIdent \<Rightarrow> string option"
  getInstancesFailure :: "string option"
  rangeOrder :: "bool \<Rightarrow> nat \<Rightarrow> nat \<Rightarrow> string list"

text \<open>
  \<open>storageFailure\<close> gives the input/output error of the storage for the record
  of an instance, if it has one, \<open>getInstancesFailure\<close> the one of reading the
  whole table. \<open>rangeOrder p n i\<close> is the order in which the
  \<^verbatim>\<open>range\<close> loop of \<^verbatim>\<open>prepareNetworkParameters\<close> visits the keys of
  \<^verbatim>\<open>AllowedConnections\<close> when it is called for instance \<open>i\<close> of node \<open>n\<close> in the
  network pass \<open>p\<close>: Go does not fix this order.
\<close>

text \<open>
  Modelled from the spec: the storage of instance records (package database is
  not among the sources). The specification says "persist per-instance \<open>{ident, uid}\<close>":
  a table with one record for an instance; \<^verbatim>\<open>GetInstanceUID\<close> of an instance
  without record is \<^verbatim>\<open>ErrNotExist\<close>.
\<close>

definition GetInstanceUID :: "Env \<Rightarrow> StoredInstance list \<Rightarrow> InstanceIdent \<Rightarrow> storageError + int" where
  "GetInstanceUID env table ident =
     (case storageFailure env ident of
        Some e \<Rightarrow> Inl (StorageFailure e)
      | None \<Rightarrow> (case find (\<lambda>s. storedIdent s = ident) table of
                   None \<Rightarrow> Inl ErrNotExist
                 | Some s \<Rightarrow> Inr (storedUID s)))"

definition AddInstance :: "Env \<Rightarrow> StoredInstance list \<Rightarrow> StoredInstance \<Rightarrow> StoredInstance list" where
  "AddInstance env table inst =
     (if storageFailure env (storedIdent inst) \<noteq> None then table
      else if list_ex (\<lambda>s. storedIdent s = storedIdent inst) table then table
      else table @ [inst])"

definition RemoveInstance :: "Env \<Rightarrow> StoredInstance list \<Rightarrow> InstanceIdent \<Rightarrow> StoredInstance list" where
  "RemoveInstance env table ident =
     (if storageFailure env ident \<noteq> None then table
      else filter (\<lambda>s. storedIdent s \<noteq> ident) table)"

text \<open>
  Modelled from the spec: the pool of user ids (package uidgidpool is not among
  the sources). The specification says "UIDs are allocated from a pool": the
  pool is the list of the ids in use; \<^verbatim>\<open>GetFreeID\<close> takes the smallest id of
  the range that is not in use, \<^verbatim>\<open>AddID\<close> marks an id as used, \<^verbatim>\<open>RemoveID\<close>
  gives it back. The range starts at 5000, the first id the tests of the
  launcher expect; its size is a parameter of the pool.
\<close>

record IdentifierPool =
  rangeSize :: nat
  lockedIDs :: "int list"


fun firstFree :: "int list \<Rightarrow> int \<Rightarrow> nat \<Rightarrow> int option" where
  "firstFree locked i 0 = None"
| "firstFree locked i (Suc n) = (if i \<in> set locked then firstFree locked (i + 1) n else Some i)"

definition GetFreeID :: "IdentifierPool \<Rightarrow> string + int \<times> IdentifierPool" where
  "GetFreeID pool =
     (case firstFree (lockedIDs pool) 5000 (rangeSize pool) of
        None \<Rightarrow> Inl ''no free ID found''
      | Some i \<Rightarrow> Inr (i, pool\<lparr>lockedIDs := i # lockedIDs pool\<rparr>))"


definition RemoveID :: "IdentifierPool \<Rightarrow> int \<Rightarrow> IdentifierPool" where
  "RemoveID pool i = pool\<lparr>lockedIDs := filter (\<lambda>j. j \<noteq> i) (lockedIDs pool)\<rparr>"

subsection \<open>State of the launcher\<close>

text \<open>
  \<open>sent\<close> lists the calls of \<^verbatim>\<open>NodeManager.RunInstances\<close> (node, request, force
  restart), \<open>emitted\<close> the values written to the run status channel (instances
  and error services), \<open>cleaned\<close> the calls of \<^verbatim>\<open>Cleanup\<close>, \<open>reverted\<close> those of
  \<^verbatim>\<open>RevertService\<close>, oldest first.
\<close>

record ServiceStatus =
  errServiceID :: string
  errServiceAosVersion :: nat
  errServiceMessage :: string

record RunInstancesStatus =
  statusInstances :: "InstanceStatus list"
  ErrorServices :: "ServiceStatus list"

record Launcher =
  nodes :: "nodeStatus list"
  storage :: "StoredInstance list"
  uidPool :: IdentifierPool
  network :: "netCall list"
  currentDesiredInstances :: "DesiredInstance list"
  currentRunStatus :: "InstanceStatus list"
  currentErrorStatus :: "InstanceStatus list"
  pendingNewServices :: "string list"
  sent :: "(string \<times> runRequestInfo \<times> bool) list"
  emitted :: "RunInstancesStatus list"
  cleaned :: "InstanceIdent list"
  reverted :: "string list"

definition InstanceStateActive :: string where
  "InstanceStateActive = ''active''"

definition InstanceStateFailed :: string where
  "InstanceStateFailed = ''failed''"

definition createInstanceStatusFromInfo ::
  "string \<Rightarrow> string \<Rightarrow> nat \<Rightarrow> nat \<Rightarrow> string \<Rightarrow> string \<Rightarrow> InstanceStatus" where
  "createInstanceStatusFromInfo serviceID subjectID instanceIndex serviceVersion runState errorMsg =
     \<lparr>statusIdent = \<lparr>ServiceID = serviceID, SubjectID = subjectID, Instance = instanceIndex\<rparr>,
      AosVersion = serviceVersion, RunState = runState, statusNodeID = [], StateChecksum = [],
      ErrorInfo = (if errorMsg \<noteq> [] then Some errorMsg else None)\<rparr>"

subsection \<open>Sorting\<close>

text \<open>
  \<^verbatim>\<open>sort.Slice\<close> and \<^verbatim>\<open>slices.SortFunc\<close> are modelled by the insertion sort that
  both are on short slices. They do not promise to keep the order of entries
  that compare equal; the model keeps it.
\<close>

fun insertBy :: "('a \<Rightarrow> 'a \<Rightarrow> bool) \<Rightarrow> 'a \<Rightarrow> 'a list \<Rightarrow> 'a list" where
  "insertBy lt x [] = [x]"
| "insertBy lt x (y # ys) = (if lt x y then x # y # ys else y # insertBy lt x ys)"

definition sortBy :: "('a \<Rightarrow> 'a \<Rightarrow> bool) \<Rightarrow> 'a list \<Rightarrow> 'a list" where
  "sortBy lt xs = foldl (\<lambda>acc x. insertBy lt x acc) [] xs"

definition instanceLess :: "DesiredInstance \<Rightarrow> DesiredInstance \<Rightarrow> bool" where
  "instanceLess a b =
     (if desPriority a = desPriority b then desServiceID a < desServiceID b
      else desPriority a > desPriority b)"

definition nodeLessConnect :: "nodeStatus \<Rightarrow> nodeStatus \<Rightarrow> bool" where
  "nodeLessConnect a b =
     (if priority a = priority b then NodeID a < NodeID b else priority a > priority b)"

definition nodeLessRebalance :: "nodeStatus \<Rightarrow> nodeStatus \<Rightarrow> bool" where
  "nodeLessRebalance a b =
     (if priority a = priority b then NodeID a < NodeID b else priority a < priority b)"

subsection \<open>Placement\<close>

definition emptyNetworkParams :: NetworkParams where
  "emptyNetworkParams = \<lparr>IP = [], Subnet = [], DNSServers = []\<rparr>"

definition emptyRunRequest :: runRequestInfo where
  "emptyRunRequest = \<lparr>services = [], layers = [], instances = []\<rparr>"

text \<open>
  \<^verbatim>\<open>prepareInstanceStartInfo\<close>. \<open>setupStorage\<close> is its part after the user id is
  known: the conversion to \<^verbatim>\<open>uint32\<close>, the call of \<^verbatim>\<open>Setup\<close> and, when that
  fails, the return of the user id to the pool.
\<close>

definition setupStorage ::
  "Env \<Rightarrow> Launcher \<Rightarrow> ImageServiceInfo \<Rightarrow> InstanceInfo \<Rightarrow> int \<Rightarrow> (InstanceInfo \<times> string option) \<times> Launcher" where
  "setupStorage env L service instanceInfo uid =
     (let info = instanceInfo\<lparr>UID := word_of_int uid\<rparr>;
          stateStorageParams =
            \<lparr>setupIdent = Ident info, setupUID = uid, setupGID = GID (Service service),
             StateQuota = (case StateLimit (Config service) of Some q \<Rightarrow> q | None \<Rightarrow> 0),
             StorageQuota = (case StorageLimit (Config service) of Some q \<Rightarrow> q | None \<Rightarrow> 0)\<rparr>
      in case Setup env stateStorageParams of
           Inl e \<Rightarrow> ((info, Some e), L\<lparr>uidPool := RemoveID (uidPool L) uid\<rparr>)
         | Inr (storagePath, statePath) \<Rightarrow>
             ((info\<lparr>StoragePath := storagePath, StatePath := statePath\<rparr>, None), L))"

definition prepareInstanceStartInfo ::
  "Env \<Rightarrow> Launcher \<Rightarrow> ImageServiceInfo \<Rightarrow> DesiredInstance \<Rightarrow> nat \<Rightarrow>
   (InstanceInfo \<times> string option) \<times> Launcher" where
  "prepareInstanceStartInfo env L service instance index =
     (let instanceInfo =
            \<lparr>Ident = \<lparr>ServiceID = desServiceID instance, SubjectID = desSubjectID instance,
                       Instance = index\<rparr>,
             UID = 0, Priority = desPriority instance, StoragePath = [], StatePath = [],
             NetworkParameters = emptyNetworkParams\<rparr>
      in case GetInstanceUID env (storage L) (Ident instanceInfo) of
           Inl (StorageFailure e) \<Rightarrow> ((instanceInfo, Some e), L)
         | Inl ErrNotExist \<Rightarrow>
             (case GetFreeID (uidPool L) of
                Inl e \<Rightarrow> ((instanceInfo, Some e), L)
              | Inr (uid, pool) \<Rightarrow>
                  setupStorage env
                    (L\<lparr>uidPool := pool,
                       storage := AddInstance env (storage L)
                                    \<lparr>storedIdent = Ident instanceInfo, storedUID = uid\<rparr>\<rparr>)
                    service instanceInfo uid)
         | Inr uid \<Rightarrow> setupStorage env L service instanceInfo uid)"

definition addRunRequest ::
  "ImageServiceInfo \<Rightarrow> ImageLayerInfo list \<Rightarrow> InstanceInfo \<Rightarrow> nodeStatus \<Rightarrow> nodeStatus" where
  "addRunRequest service layersOfService instance node =
     (let req = currentRunRequest node;
          serviceInfo = (if RemoteNode node then (Service service)\<lparr>URL := RemoteURL service\<rparr>
                         else Service service);
          services' = (if serviceInfo \<in> set (services req) then services req
                       else services req @ [serviceInfo]);
          layers' = foldl (\<lambda>acc layer.
                       let newLayer = (if RemoteNode node then (Layer layer)\<lparr>layerURL := layerRemoteURL layer\<rparr>
                                       else Layer layer)
                       in if newLayer \<in> set acc then acc else acc @ [newLayer])
                     (layers req) layersOfService
      in node\<lparr>currentRunRequest :=
                \<lparr>services = services', layers = layers', instances = instances req @ [instance]\<rparr>\<rparr>)"

fun getLayersForService :: "Env \<Rightarrow> string list \<Rightarrow> string + ImageLayerInfo list" where
  "getLayersForService env [] = Inr []"
| "getLayersForService env (digest # digests) =
     (case GetLayerInfo env digest of
        Inl e \<Rightarrow> Inl e
      | Inr layer \<Rightarrow> (case getLayersForService env digests of
                        Inl e \<Rightarrow> Inl e
                      | Inr ls \<Rightarrow> Inr (layer # ls)))"

text \<open>
  The test of \<^verbatim>\<open>removeInstances\<close> and \<^verbatim>\<open>removeInstanceNetworkParameters\<close>
  whether an instance is one of the desired ones.
\<close>

definition isDesired :: "DesiredInstance list \<Rightarrow> InstanceIdent \<Rightarrow> bool" where
  "isDesired desired ident =
     list_ex (\<lambda>d. desServiceID d = ServiceID ident \<and> desSubjectID d = SubjectID ident
                   \<and> Instance ident < NumInstances d) desired"

definition removeInstances :: "Env \<Rightarrow> Launcher \<Rightarrow> DesiredInstance list \<Rightarrow> Launcher" where
  "removeInstances env L desired =
     (case getInstancesFailure env of
        Some e \<Rightarrow> L
      | None \<Rightarrow>
          foldl (\<lambda>L' storeInstance.
                   if isDesired desired (storedIdent storeInstance) then L'
                   else L'\<lparr>uidPool := RemoveID (uidPool L') (storedUID storeInstance),
                           storage := RemoveInstance env (storage L') (storedIdent storeInstance)\<rparr>)
                L (storage L))"

definition removeInstanceNetworkParameters :: "Env \<Rightarrow> Launcher \<Rightarrow> DesiredInstance list \<Rightarrow> Launcher" where
  "removeInstanceNetworkParameters env L desired =
     foldl (\<lambda>L' netInstance.
              if isDesired desired netInstance then L'
              else (case GetServiceInfo env (ServiceID netInstance) of
                      Inl e \<Rightarrow> L'
                    | Inr serviceInfo \<Rightarrow>
                        L'\<lparr>network := network L' @
                             [RemoveInstanceNetworkParameters netInstance (ProviderID (Service serviceInfo))]\<rparr>))
           L (networkInstances env (network L))"

text \<open>
  The body of the inner loop of \<^verbatim>\<open>performNodeBalancing\<close>, for one instance
  index. An error of \<^verbatim>\<open>prepareInstanceStartInfo\<close> is added to the error
  statuses and the loop body goes on, as in the source. \<^verbatim>\<open>getMostPriorityNode\<close>
  cannot meet an empty list here.
\<close>

definition balanceInstance ::
  "Env \<Rightarrow> ImageServiceInfo \<Rightarrow> ImageLayerInfo list \<Rightarrow> DesiredInstance \<Rightarrow> nat list \<Rightarrow>
   Launcher \<times> InstanceStatus list \<Rightarrow> nat \<Rightarrow> Launcher \<times> InstanceStatus list" where
  "balanceInstance env serviceInfo layersOfService instance cands st instanceIndex =
     (let L = fst st; errStatus = snd st;
          failed = (\<lambda>e. createInstanceStatusFromInfo (desServiceID instance) (desSubjectID instance)
                          instanceIndex (serviceAosVersion (Service serviceInfo)) InstanceStateFailed e)
      in case getNodesByDevices (nodes L) cands (Devices (Config serviceInfo)) of
           Inl e \<Rightarrow> (L, errStatus @ [failed e])
         | Inr nodeForInstance \<Rightarrow>
             (case prepareInstanceStartInfo env L serviceInfo instance instanceIndex of
                ((instanceInfo, err), L1) \<Rightarrow>
                  (let errStatus1 = (case err of Some e \<Rightarrow> errStatus @ [failed e] | None \<Rightarrow> errStatus)
                   in case getMostPriorityNode (nodes L1) nodeForInstance of
                        None \<Rightarrow> (L1, errStatus1)
                      | Some node \<Rightarrow>
                          (case allocateDevices (nodes L1 ! node) (Devices (Config serviceInfo)) of
                             (Some e, node') \<Rightarrow>
                               (L1\<lparr>nodes := (nodes L1)[node := node']\<rparr>, errStatus1 @ [failed e])
                           | (None, node') \<Rightarrow>
                               (L1\<lparr>nodes := (nodes L1)[node :=
                                      addRunRequest serviceInfo layersOfService instanceInfo node']\<rparr>,
                                errStatus1)))))"

text \<open>The body of the outer loop, for one desired group.\<close>

definition balanceGroup ::
  "Env \<Rightarrow> Launcher \<times> InstanceStatus list \<Rightarrow> DesiredInstance \<Rightarrow> Launcher \<times> InstanceStatus list" where
  "balanceGroup env st instance =
     (let L = fst st; errStatus = snd st;
          sid = desServiceID instance; subj = desSubjectID instance
      in case GetServiceInfo env sid of
           Inl e \<Rightarrow> (L, errStatus @ [createInstanceStatusFromInfo sid subj 0 0 InstanceStateFailed e])
         | Inr serviceInfo \<Rightarrow>
             if Cached serviceInfo
             then (L, errStatus @ [createInstanceStatusFromInfo sid subj 0 0 InstanceStateFailed
                                     ''service deleted''])
             else (let allFailed = (\<lambda>e. map (\<lambda>instanceIndex.
                                       createInstanceStatusFromInfo sid subj instanceIndex
                                         (serviceAosVersion (Service serviceInfo)) InstanceStateFailed e)
                                     [0..<NumInstances instance])
                   in case getLayersForService env (Layers serviceInfo) of
                        Inl e \<Rightarrow> (L, errStatus @ allFailed e)
                      | Inr layersOfService \<Rightarrow>
                          (case getNodesByStaticResources (nodes L) [0..<length (nodes L)]
                                  serviceInfo instance of
                             Inl e \<Rightarrow> (L, errStatus @ allFailed e)
                           | Inr cands \<Rightarrow>
                               foldl (balanceInstance env serviceInfo layersOfService instance cands)
                                     (L, errStatus) [0..<NumInstances instance])))"

subsection \<open>Network parameters\<close>

text \<open>
  \<^verbatim>\<open>prepareNetworkParameters\<close>. \<open>keys\<close> is the order in which the \<^verbatim>\<open>range\<close> loop
  visits the keys of the map \<^verbatim>\<open>AllowedConnections\<close>.
\<close>

definition prepareNetworkParameters :: "string list \<Rightarrow> InstanceInfo \<Rightarrow> ImageServiceInfo \<Rightarrow> NetworkRequest" where
  "prepareNetworkParameters keys instance serviceInfo =
     \<lparr>Hosts = (case Hostname (Config serviceInfo) of Some h \<Rightarrow> [h] | None \<Rightarrow> []),
      ExposePorts = ExposedPorts serviceInfo,
      AllowConnections = foldl (\<lambda>acc key. acc @ [key]) [] keys\<rparr>"

text \<open>An order in which a \<^verbatim>\<open>range\<close> loop may visit the keys of a map.\<close>

definition rangesOver :: "string list \<Rightarrow> string set \<Rightarrow> bool" where
  "rangesOver keys m = (distinct keys \<and> set keys = m)"

text \<open>
  The body of the loops of \<^verbatim>\<open>prepareNetworkForInstances\<close>, for instance \<open>i\<close> of
  node \<open>n\<close>. When the network manager fails, the instance gets the empty
  parameters that come with the error.
\<close>

definition prepareNetworkForInstance ::
  "Env \<Rightarrow> bool \<Rightarrow> nat \<Rightarrow> Launcher \<times> InstanceStatus list \<Rightarrow> nat \<Rightarrow> Launcher \<times> InstanceStatus list" where
  "prepareNetworkForInstance env onlyExposedPorts n st i =
     (let L = fst st; errStatus = snd st;
          node = nodes L ! n;
          instance = instances (currentRunRequest node) ! i;
          ident = Ident instance
      in case GetServiceInfo env (ServiceID ident) of
           Inl e \<Rightarrow> (L, errStatus @ [createInstanceStatusFromInfo (ServiceID ident) (SubjectID ident) 0 0
                                       InstanceStateFailed e])
         | Inr serviceInfo \<Rightarrow>
             if onlyExposedPorts \<and> ExposedPorts serviceInfo = [] then (L, errStatus)
             else (let request = prepareNetworkParameters (rangeOrder env onlyExposedPorts n i)
                                   instance serviceInfo;
                       provider = ProviderID (Service serviceInfo);
                       answer = networkAnswer env (network L) ident provider request;
                       instance' = instance\<lparr>NetworkParameters :=
                                     (case answer of Inl e \<Rightarrow> emptyNetworkParams | Inr p \<Rightarrow> p)\<rparr>;
                       node' = node\<lparr>currentRunRequest :=
                                 (currentRunRequest node)\<lparr>instances :=
                                    (instances (currentRunRequest node))[i := instance']\<rparr>\<rparr>
                   in (L\<lparr>nodes := (nodes L)[n := node'],
                         network := network L @ [PrepareInstanceNetworkParameters ident provider request]\<rparr>,
                       (case answer of
                          Inl e \<Rightarrow> errStatus @ [createInstanceStatusFromInfo (ServiceID ident) (SubjectID ident)
                                                  (Instance ident) (serviceAosVersion (Service serviceInfo))
                                                  InstanceStateFailed e]
                        | Inr p \<Rightarrow> errStatus))))"

definition prepareNetworkForNode ::
  "Env \<Rightarrow> bool \<Rightarrow> Launcher \<times> InstanceStatus list \<Rightarrow> nat \<Rightarrow> Launcher \<times> InstanceStatus list" where
  "prepareNetworkForNode env onlyExposedPorts st n =
     foldl (prepareNetworkForInstance env onlyExposedPorts n) st
           [0..<length (instances (currentRunRequest (nodes (fst st) ! n)))]"

definition prepareNetworkForInstances :: "Env \<Rightarrow> bool \<Rightarrow> Launcher \<Rightarrow> Launcher \<times> InstanceStatus list" where
  "prepareNetworkForInstances env onlyExposedPorts L =
     foldl (prepareNetworkForNode env onlyExposedPorts) (L, []) [0..<length (nodes L)]"

text \<open>
  \<^verbatim>\<open>performNodeBalancing\<close>. It sorts the slice it is given in place; the sorted
  list is returned with the error statuses, for the callers whose
  \<^verbatim>\<open>currentDesiredInstances\<close> is that slice.
\<close>

definition performNodeBalancing ::
  "Env \<Rightarrow> Launcher \<Rightarrow> DesiredInstance list \<Rightarrow> InstanceStatus list \<times> Launcher \<times> DesiredInstance list" where
  "performNodeBalancing env L desired =
     (let L1 = L\<lparr>nodes := map (\<lambda>node. node\<lparr>currentRunRequest := emptyRunRequest\<rparr>) (nodes L)\<rparr>;
          sorted = sortBy instanceLess desired;
          L2 = removeInstances env L1 sorted;
          L3 = removeInstanceNetworkParameters env L2 sorted;
          placed = foldl (balanceGroup env) (L3, []) sorted;
          net1 = prepareNetworkForInstances env True (fst placed);
          net2 = prepareNetworkForInstances env False (fst net1)
      in (snd placed @ snd net1 @ snd net2, fst net2, sorted))"

subsection \<open>Run requests and run status\<close>

definition sendRunInstances :: "Env \<Rightarrow> bool \<Rightarrow> Launcher \<Rightarrow> string option \<times> Launcher" where
  "sendRunInstances env forceRestart L =
     ((case filter (\<lambda>node. RunInstancesError env (NodeID node) \<noteq> None) (nodes L) of
         [] \<Rightarrow> None
       | node # rest \<Rightarrow> RunInstancesError env (NodeID node)),
      L\<lparr>nodes := map (\<lambda>node. node\<lparr>waitStatus := True\<rparr>) (nodes L),
        sent := sent L @ map (\<lambda>node. (NodeID node, currentRunRequest node, forceRestart)) (nodes L)\<rparr>)"

text \<open>\<^verbatim>\<open>getNode\<close>: the pointer to the first node with the id, or nil.\<close>

fun getNodeFrom :: "nat \<Rightarrow> nodeStatus list \<Rightarrow> string \<Rightarrow> nat option" where
  "getNodeFrom k [] nodeID = None"
| "getNodeFrom k (node # ns) nodeID = (if NodeID node = nodeID then Some k else getNodeFrom (Suc k) ns nodeID)"

definition getNode :: "Launcher \<Rightarrow> string \<Rightarrow> nat option" where
  "getNode L nodeID = getNodeFrom 0 (nodes L) nodeID"

definition initNodeUnitConfiguration :: "Env \<Rightarrow> nodeStatus \<Rightarrow> string \<Rightarrow> nodeStatus" where
  "initNodeUnitConfiguration env node nodeType =
     (let nodeUnitConfig = GetUnitConfiguration env nodeType
      in node\<lparr>priority := cfgPriority nodeUnitConfig,
              availableLabels := cfgLabels nodeUnitConfig,
              availableResources := cfgResources nodeUnitConfig,
              availableDevices :=
                map (\<lambda>(deviceName, count). \<lparr>name = deviceName, sharedCount = count, allocatedCount = 0\<rparr>)
                    (cfgDevices nodeUnitConfig)\<rparr>)"

definition initNodeStatus :: "Env \<Rightarrow> string \<Rightarrow> string \<Rightarrow> string + nodeStatus" where
  "initNodeStatus env nodeID nodeType =
     (case GetNodeConfiguration env nodeID of
        Inl e \<Rightarrow> Inl (''can't get node configuration fot nodeID '' @ nodeID @ '': '' @ e)
      | Inr config \<Rightarrow>
          Inr (initNodeUnitConfiguration env
                 \<lparr>NodeID = infoNodeID config, NodeType = infoNodeType config,
                  TotalRAM = infoTotalRAM config, NumCPUs = infoNumCPUs config,
                  RemoteNode = infoRemoteNode config, RunnerFeature = infoRunnerFeature config,
                  availableResources = [], availableLabels = [], availableDevices = [],
                  priority = 0, receivedRunInstances = [], currentRunRequest = emptyRunRequest,
                  waitStatus = False\<rparr>
                 nodeType))"

text \<open>
  \<^verbatim>\<open>processStoppedInstances\<close>: the instances whose state storage is cleaned up.
\<close>

definition stoppedInstance :: "InstanceStatus list \<Rightarrow> InstanceStatus \<Rightarrow> bool" where
  "stoppedInstance newStatus current =
     (case find (\<lambda>new. statusIdent new = statusIdent current) newStatus of
        Some new \<Rightarrow> ErrorInfo new \<noteq> None \<and> ErrorInfo current = None
      | None \<Rightarrow> ErrorInfo current = None)"

definition processStoppedInstances :: "Launcher \<Rightarrow> InstanceStatus list \<Rightarrow> InstanceIdent list \<Rightarrow> Launcher" where
  "processStoppedInstances L newStatus errorInstances =
     L\<lparr>cleaned := cleaned L @ errorInstances
                   @ map statusIdent (filter (stoppedInstance newStatus) (currentRunStatus L))\<rparr>"

text \<open>
  \<^verbatim>\<open>sendCurrentStatus\<close>. Its first loop, over the nodes, collects the statuses:
  for a node that is still waited for one failed status per instance of its run
  request, for the others what the node has reported.
\<close>

definition timeoutStatus :: "nodeStatus \<Rightarrow> InstanceInfo \<Rightarrow> InstanceStatus" where
  "timeoutStatus node errInstance =
     \<lparr>statusIdent = Ident errInstance, AosVersion = 0, RunState = InstanceStateFailed,
      statusNodeID = NodeID node, StateChecksum = [],
      ErrorInfo = Some ''wait run status timeout''\<rparr>"

definition collectNodeStatus :: "InstanceStatus list \<Rightarrow> nodeStatus \<Rightarrow> InstanceStatus list" where
  "collectNodeStatus acc node =
     (if waitStatus node
      then foldl (\<lambda>acc' errInstance. acc' @ [timeoutStatus node errInstance]) acc
                 (instances (currentRunRequest node))
      else acc @ receivedRunInstances node)"

definition setChecksum :: "Env \<Rightarrow> InstanceStatus \<Rightarrow> InstanceStatus" where
  "setChecksum env status =
     (if ErrorInfo status \<noteq> None then status
      else status\<lparr>StateChecksum := GetInstanceCheckSum env (statusIdent status)\<rparr>)"

definition errorServiceFor :: "Env \<Rightarrow> string \<Rightarrow> ServiceStatus" where
  "errorServiceFor env newService =
     (case GetServiceInfo env newService of
        Inl e \<Rightarrow> \<lparr>errServiceID = newService, errServiceAosVersion = 0, errServiceMessage = e\<rparr>
      | Inr service \<Rightarrow>
          \<lparr>errServiceID = newService, errServiceAosVersion = serviceAosVersion (Service service),
           errServiceMessage = ''can't run any instances''\<rparr>)"

definition sendCurrentStatus :: "Env \<Rightarrow> Launcher \<Rightarrow> Launcher" where
  "sendCurrentStatus env L =
     (let collected = foldl collectNodeStatus [] (nodes L);
          L1 = L\<lparr>nodes := map (\<lambda>node. node\<lparr>waitStatus := False\<rparr>) (nodes L)\<rparr>;
          errorInstances = map statusIdent (filter (\<lambda>s. ErrorInfo s \<noteq> None) collected);
          statuses = map (setChecksum env) collected;
          failedServices =
            filter (\<lambda>newService.
                      \<not> list_ex (\<lambda>s. ServiceID (statusIdent s) = newService \<and> ErrorInfo s = None) statuses)
                   (pendingNewServices L1);
          L2 = L1\<lparr>reverted := reverted L1 @ failedServices, pendingNewServices := []\<rparr>;
          L3 = processStoppedInstances L2 statuses errorInstances;
          runStatusToSend = \<lparr>statusInstances = statuses @ currentErrorStatus L3,
                             ErrorServices = map (errorServiceFor env) failedServices\<rparr>
      in L3\<lparr>emitted := emitted L3 @ [runStatusToSend],
            currentRunStatus := statusInstances runStatusToSend,
            currentErrorStatus := []\<rparr>)"

text \<open>
  \<^verbatim>\<open>processRunInstanceStatus\<close>. A new node is appended and the nodes are
  sorted before the source stores the report in the new node; the sort reads
  the priority and the id only, so the model stores the report first.
\<close>

definition processRunInstanceStatus ::
  "Env \<Rightarrow> Launcher \<Rightarrow> string \<Rightarrow> string \<Rightarrow> InstanceStatus list \<Rightarrow> Launcher" where
  "processRunInstanceStatus env L nodeID nodeType reported =
     (let report = (\<lambda>node. node\<lparr>receivedRunInstances := reported, waitStatus := False\<rparr>);
          finish = (\<lambda>L'. if length (nodes L') \<noteq> length (NodeIDs env) then L'
                          else if list_ex waitStatus (nodes L') then L'
                          else sendCurrentStatus env L')
      in case getNode L nodeID of
           Some k \<Rightarrow> finish (L\<lparr>nodes := (nodes L)[k := report (nodes L ! k)]\<rparr>)
         | None \<Rightarrow>
             if nodeID \<notin> set (NodeIDs env) then L
             else (case initNodeStatus env nodeID nodeType of
                     Inl e \<Rightarrow> L
                   | Inr status \<Rightarrow>
                       finish (L\<lparr>nodes := sortBy nodeLessConnect (nodes L @ [report status])\<rparr>)))"

definition updateNetworks :: "Env \<Rightarrow> Launcher \<Rightarrow> DesiredInstance list \<Rightarrow> Launcher" where
  "updateNetworks env L desired =
     (if list_ex (\<lambda>d. isl (GetServiceInfo env (desServiceID d))) desired then L
      else (let providers = map (\<lambda>d. ProviderID (Service (projr (GetServiceInfo env (desServiceID d))))) desired
            in L\<lparr>network := network L @ map (\<lambda>node. UpdateProviderNetwork providers (NodeID node)) (nodes L)\<rparr>))"

definition resetDeviceAllocation :: "Launcher \<Rightarrow> Launcher" where
  "resetDeviceAllocation L = L\<lparr>nodes := map resetDevices (nodes L)\<rparr>"

definition RunInstances ::
  "Env \<Rightarrow> Launcher \<Rightarrow> DesiredInstance list \<Rightarrow> string list \<Rightarrow> string option \<times> Launcher" where
  "RunInstances env L desired newServices =
     (let L1 = resetDeviceAllocation L;
          L2 = updateNetworks env L1 desired;
          L3 = L2\<lparr>currentDesiredInstances := desired, pendingNewServices := newServices\<rparr>;
          balanced = performNodeBalancing env L3 desired;
          L4 = (fst (snd balanced))\<lparr>currentErrorStatus := fst balanced,
                                     currentDesiredInstances := snd (snd balanced)\<rparr>;
          L5 = L4\<lparr>network := network L4 @ [RestartDNSServer]\<rparr>
      in sendRunInstances env False L5)"

definition RestartInstances :: "Env \<Rightarrow> Launcher \<Rightarrow> string option \<times> Launcher" where
  "RestartInstances env L =
     (let L1 = L\<lparr>nodes := map (\<lambda>node. initNodeUnitConfiguration env node (NodeType node)) (nodes L)\<rparr>;
          balanced = performNodeBalancing env L1 (currentDesiredInstances L1);
          L2 = (fst (snd balanced))\<lparr>currentErrorStatus := fst balanced,
                                     currentDesiredInstances := snd (snd balanced)\<rparr>
      in sendRunInstances env True L2)"

subsection \<open>Rebalancing\<close>

text \<open>
  \<^verbatim>\<open>getNodesForRebalancingByNodePriority\<close>: the other nodes whose priority is
  not higher than that of the node with the issue, as pointers, and the nodes
  of the launcher sorted by rising priority. Without a node of the given id the
  function returns before it sorts.
\<close>

definition getNodesForRebalancingByNodePriority :: "Launcher \<Rightarrow> string \<Rightarrow> nodeStatus list \<times> Launcher" where
  "getNodesForRebalancingByNodePriority L nodeID =
     (case getNode L nodeID of
        None \<Rightarrow> ([], L)
      | Some k \<Rightarrow>
          (let nodeWithIssue = nodes L ! k
           in (filter (\<lambda>node. \<not> priority nodeWithIssue < priority node \<and> NodeID node \<noteq> NodeID nodeWithIssue)
                      (nodes L),
               L\<lparr>nodes := sortBy nodeLessRebalance (nodes L)\<rparr>)))"

definition getLabelsForInstance :: "Launcher \<Rightarrow> InstanceIdent \<Rightarrow> string list" where
  "getLabelsForInstance L ident =
     (case find (\<lambda>d. desServiceID d = ServiceID ident \<and> desSubjectID d = SubjectID ident)
                (currentDesiredInstances L) of
        Some d \<Rightarrow> Labels d
      | None \<Rightarrow> [])"

text \<open>
  \<^verbatim>\<open>getNodeByMonitoringData\<close>. When the monitoring data of a node cannot be
  read, the source goes on with zero usage.
\<close>

definition freeRAM :: "Env \<Rightarrow> nodeStatus \<Rightarrow> 64 word" where
  "freeRAM env node =
     TotalRAM node - (case GetNodeMonitoringData env (NodeID node) of Inl e \<Rightarrow> 0 | Inr d \<Rightarrow> RAM d)"

definition freeCPU :: "Env \<Rightarrow> nodeStatus \<Rightarrow> 64 word" where
  "freeCPU env node =
     NumCPUs node * 100 - (case GetNodeMonitoringData env (NodeID node) of Inl e \<Rightarrow> 0 | Inr d \<Rightarrow> CPU d)"

definition getNodeByMonitoringData :: "Env \<Rightarrow> nodeStatus list \<Rightarrow> nat list \<Rightarrow> string \<Rightarrow> nat list" where
  "getNodeByMonitoringData env ns cands alertType =
     (if length cands = 1 then cands
      else if alertType = ''cpu''
      then sortBy (\<lambda>a b. freeCPU env (ns ! a) > freeCPU env (ns ! b)) cands
      else sortBy (\<lambda>a b. freeRAM env (ns ! a) > freeRAM env (ns ! b)) cands)"

text \<open>
  The body of the loop of \<^verbatim>\<open>performRebalancing\<close> for the instance at position
  \<open>i\<close> of the node with the issue (pointer \<open>src\<close>). The result says whether the
  function returns (an instance was moved and the requests were sent) or the
  loop goes on. \<open>nodesToRebalance\<close> is the list of that name after the three
  filters, empty where the source continues the loop; \<open>moveInstance\<close> is the
  part from \<^verbatim>\<open>addRunRequest\<close> on.
\<close>

definition moveInstance ::
  "Env \<Rightarrow> nat \<Rightarrow> nat \<Rightarrow> nat \<Rightarrow> ImageServiceInfo \<Rightarrow> ImageLayerInfo list \<Rightarrow> Launcher \<Rightarrow> bool \<times> Launcher" where
  "moveInstance env src i dest serviceInfo layersForService L =
     (let instance = instances (currentRunRequest (nodes L ! src)) ! i;
          L1 = L\<lparr>nodes := (nodes L)[dest := addRunRequest serviceInfo layersForService instance
                                                (nodes L ! dest)]\<rparr>
      in case releaseDevices (nodes L1 ! src) (Devices (Config serviceInfo)) of
           (Some e, node') \<Rightarrow> (False, L1\<lparr>nodes := (nodes L1)[src := node']\<rparr>)
         | (None, node') \<Rightarrow>
             (let req = currentRunRequest node';
                  node'' = node'\<lparr>currentRunRequest :=
                             req\<lparr>instances := take i (instances req) @ drop (Suc i) (instances req)\<rparr>\<rparr>
              in (True, snd (sendRunInstances env False (L1\<lparr>nodes := (nodes L1)[src := node'']\<rparr>)))))"

definition nodesToRebalance :: "Env \<Rightarrow> string \<Rightarrow> nat \<Rightarrow> nat \<Rightarrow> ImageServiceInfo \<Rightarrow> Launcher \<Rightarrow> nat list" where
  "nodesToRebalance env alertParameter src i serviceInfo L =
     (let instance = instances (currentRunRequest (nodes L ! src)) ! i
      in case getNodesByStaticResources (nodes L) [0..<length (nodes L)] serviceInfo
                \<lparr>desServiceID = ServiceID (Ident instance), desSubjectID = SubjectID (Ident instance),
                 desPriority = 0, NumInstances = 0,
                 Labels = getLabelsForInstance L (Ident instance)\<rparr> of
           Inl e \<Rightarrow> []
         | Inr static \<Rightarrow>
             (case getNodesByDevices (nodes L) static (Devices (Config serviceInfo)) of
                Inl e \<Rightarrow> []
              | Inr byDevices \<Rightarrow> getNodeByMonitoringData env (nodes L) byDevices alertParameter))"

definition rebalanceInstance :: "Env \<Rightarrow> string \<Rightarrow> nat \<Rightarrow> nat \<Rightarrow> Launcher \<Rightarrow> bool \<times> Launcher" where
  "rebalanceInstance env alertParameter src i L =
     (case GetServiceInfo env (ServiceID (Ident (instances (currentRunRequest (nodes L ! src)) ! i))) of
        Inl e \<Rightarrow> (False, L)
      | Inr serviceInfo \<Rightarrow>
          (case nodesToRebalance env alertParameter src i serviceInfo L of
             [] \<Rightarrow> (False, L)
           | dest # others \<Rightarrow>
               (case getLayersForService env (Layers serviceInfo) of
                  Inl e \<Rightarrow> (False, L)
                | Inr layersForService \<Rightarrow> moveInstance env src i dest serviceInfo layersForService L)))"

fun rebalanceLoop :: "Env \<Rightarrow> string \<Rightarrow> nat \<Rightarrow> nat \<Rightarrow> Launcher \<Rightarrow> Launcher" where
  "rebalanceLoop env alertParameter src 0 L = L"
| "rebalanceLoop env alertParameter src (Suc i) L =
     (case rebalanceInstance env alertParameter src i L of
        (True, L') \<Rightarrow> L'
      | (False, L') \<Rightarrow> rebalanceLoop env alertParameter src i L')"

definition performRebalancing :: "Env \<Rightarrow> Launcher \<Rightarrow> string \<Rightarrow> string \<Rightarrow> Launcher" where
  "performRebalancing env L alertNodeID alertParameter =
     (case getNodesForRebalancingByNodePriority L alertNodeID of
        (lowerNodes, L0) \<Rightarrow>
          if lowerNodes = [] then L0
          else (let L1 = resetDeviceAllocation L0;
                    balanced = performNodeBalancing env L1 (currentDesiredInstances L1);
                    L2 = (fst (snd balanced))\<lparr>currentErrorStatus := fst balanced,
                                               currentDesiredInstances := snd (snd balanced)\<rparr>
                in case getNode L2 alertNodeID of
                     None \<Rightarrow> L2
                   | Some src \<Rightarrow>
                       rebalanceLoop env alertParameter src
                         (length (instances (currentRunRequest (nodes L2 ! src)))) L2))"

subsection \<open>The launcher as a state machine\<close>


datatype event =
    CallRunInstances "DesiredInstance list" "string list"
  | CallRestartInstances
  | RunStatusReceived string string "InstanceStatus list"
  | SystemQuotaAlert string string
  | ConnectionTimeout

fun step :: "Launcher \<Rightarrow> Env \<times> event \<Rightarrow> Launcher" where
  "step L (env, CallRunInstances desired newServices) = snd (RunInstances env L desired newServices)"
| "step L (env, CallRestartInstances) = snd (RestartInstances env L)"
| "step L (env, RunStatusReceived nodeID nodeType reported) =
     processRunInstanceStatus env L nodeID nodeType reported"
| "step L (env, SystemQuotaAlert nodeID parameter) = performRebalancing env L nodeID parameter"
| "step L (env, ConnectionTimeout) = sendCurrentStatus env L"

definition run :: "Launcher \<Rightarrow> (Env \<times> event) list \<Rightarrow> Launcher" where
  "run L evs = foldl step L evs"

subsection \<open>Notions used to state the properties of the launcher\<close>




definition nonNegativeShares :: "Env \<Rightarrow> bool" where
  "nonNegativeShares env = (\<forall>nodeType. \<forall>dev \<in> set (cfgDevices (GetUnitConfiguration env nodeType)). 0 \<le> snd dev)"

subsection \<open>Example environments\<close>

text \<open>
  The collaborators of the tests of the launcher (launcher\_test.go): an image
  provider with a table of services, a resource manager with a table of unit
  configurations, a node manager with a table of nodes and monitoring data, a
  state storage whose \<^verbatim>\<open>Setup\<close> succeeds, a network manager that answers every
  request. \<open>rebEnv\<close>, \<open>rebDesired\<close> and \<open>rebEvents\<close> are the nodes, services
  and desired instances of \<^verbatim>\<open>TestRebalancing\<close>: the four nodes report, then the
  instances are run.
\<close>

definition testEnv ::
  "string list \<Rightarrow> (string \<times> ImageServiceInfo) list \<Rightarrow> (string \<times> NodeUnitConfig) list \<Rightarrow>
   (string \<times> NodeInfo) list \<Rightarrow> (string \<times> MonitoringData) list \<Rightarrow> Env" where
  "testEnv ids svcs cfgs infos mon =
     \<lparr>NodeIDs = ids,
      GetServiceInfo = (\<lambda>s. case map_of svcs s of None \<Rightarrow> Inl ''service does't exist'' | Some i \<Rightarrow> Inr i),
      GetLayerInfo = (\<lambda>d. Inl ''layer does't exist''),
      GetUnitConfiguration = (\<lambda>t. case map_of cfgs t of
                                    None \<Rightarrow> \<lparr>cfgPriority = 0, cfgLabels = [], cfgResources = [], cfgDevices = []\<rparr>
                                  | Some c \<Rightarrow> c),
      GetNodeConfiguration = (\<lambda>n. case map_of infos n of
                                    None \<Rightarrow> Inl ''node config doesn't exist'' | Some i \<Rightarrow> Inr i),
      GetNodeMonitoringData = (\<lambda>n. case map_of mon n of None \<Rightarrow> Inr \<lparr>RAM = 0, CPU = 0\<rparr> | Some d \<Rightarrow> Inr d),
      RunInstancesError = (\<lambda>n. None),
      Setup = (\<lambda>p. Inr ([], [])),
      GetInstanceCheckSum = (\<lambda>i. ''magicSum''),
      networkAnswer = (\<lambda>calls ident provider request. Inr \<lparr>IP = [], Subnet = ''172.17.0.0/16'', DNSServers = [''10.10.0.1'']\<rparr>),
      networkInstances = (\<lambda>calls. []),
      storageFailure = (\<lambda>i. None),
      getInstancesFailure = None,
      rangeOrder = (\<lambda>p n i. [])\<rparr>"

definition testService :: "string \<Rightarrow> string list \<Rightarrow> string list \<Rightarrow> ImageServiceInfo" where
  "testService sid devs res =
     \<lparr>Service = \<lparr>serviceAosVersion = 1, ID = sid, ProviderID = [], URL = sid @ ''LocalUrl'', GID = 5000, serviceRest = []\<rparr>,
      RemoteURL = sid @ ''RemoteUrl'', Cached = False,
      Config = \<lparr>Runner = ''runc'', Devices = devs, Resources = res, Hostname = None, StateLimit = None,
                StorageLimit = None, AllowedConnections = {}\<rparr>,
      Layers = [], ExposedPorts = []\<rparr>"

definition testNode :: "string \<Rightarrow> string \<Rightarrow> bool \<Rightarrow> 64 word \<Rightarrow> NodeInfo" where
  "testNode nid ntype remote cpus = \<lparr>infoNodeID = nid, infoNodeType = ntype, infoTotalRAM = 0, infoNumCPUs = cpus,
      infoRemoteNode = remote, infoRunnerFeature = [''runc'', ''crun'']\<rparr>"


definition rebEnv :: Env where
  "rebEnv = testEnv [''localSM1'', ''localSM2'', ''remoteSM1'', ''remoteSM2'']
     [(''servRes1'', testService ''servRes1'' [] [''res1'']),
      (''servNoDev'', testService ''servNoDev'' [] []),
      (''servCommonDev'', testService ''servCommonDev'' [''commonDevice''] [])]
     [(''localSMType'', \<lparr>cfgPriority = 100, cfgLabels = [], cfgResources = [], cfgDevices = [(''commonDevice'', 1)]\<rparr>),
      (''remoteSMType'', \<lparr>cfgPriority = 50, cfgLabels = [], cfgResources = [''res1''], cfgDevices = [(''commonDevice'', 2)]\<rparr>)]
     [(''localSM1'', testNode ''localSM1'' ''localSMType'' False 0),
      (''localSM2'', testNode ''localSM2'' ''localSMType'' False 0),
      (''remoteSM1'', testNode ''remoteSM1'' ''remoteSMType'' True 0),
      (''remoteSM2'', testNode ''remoteSM2'' ''remoteSMType'' True 0)] []"






section \<open>Properties of the group downloader\<close>

lemma map_fst_map_entry: "map fst (AList.map_entry k f xs) = map fst xs"
  by (induction xs) auto


lemma Wrap_nonempty: "Wrap loc msg \<noteq> []"
  by (simp add: Wrap_def)

lemma update_absent: "k \<notin> fst ` set al \<Longrightarrow> AList.update k v al = al @ [(k, v)]"
  by (induction al) auto

lemma attempted_subset: "set (attempted c d req) \<subseteq> set req"
  by (induction req) (auto split: sum.splits if_splits)

subsection \<open>Effect of each step on one id\<close>
lemma handleError_keys: "map fst (result (handleError loc c st i err)) = map fst (result st)"
  by (simp add: handleError_def Let_def updateStatus_def map_fst_map_entry)

lemma handleError_cancel: "cancelCalled (handleError loc c st i err) = (cancelCalled st \<or> \<not> c)"
  by (auto simp add: handleError_def Let_def updateStatus_def)

lemma handleError_errOf:
  "errOf (handleError loc c st i err) k =
     (if k = i \<and> \<not> isCancelError (Wrap loc err) then map_option (\<lambda>_. Wrap loc err) (errOf st k)
      else errOf st k)"
  by (auto simp add: handleError_def Let_def updateStatus_def errOf_def map_of_map_entry split: option.splits)


lemma initResults_result:
  "distinct (map fst req) \<Longrightarrow> fst ` set req \<inter> fst ` set (result st) = {} \<Longrightarrow>
   result (initResults req st) = result st @ map (\<lambda>(i, it). (i, \<lparr>FileName = [], Error = []\<rparr>)) req"
proof (induction req arbitrary: st)
  case Nil then show ?case by simp
next
  case (Cons a req)
  obtain i it where a: "a = (i, it)" by (cases a)
  from Cons.prems have ni: "i \<notin> fst ` set (result st)" by (auto simp: a)
  have "result (initResults (a # req) st) =
        result (initResults req (updateStatus (st\<lparr>result := result st @ [(i, \<lparr>FileName = [], Error = []\<rparr>)]\<rparr>) i DownloadingStatus []))"
    by (simp add: a update_absent[OF ni])
  also have "\<dots> = (result st @ [(i, \<lparr>FileName = [], Error = []\<rparr>)]) @ map (\<lambda>(i, it). (i, \<lparr>FileName = [], Error = []\<rparr>)) req"
    using Cons.prems by (subst Cons.IH) (auto simp: a updateStatus_def)
  finally show ?case by (simp add: a)
qed


lemma initResults_cancel: "cancelCalled (initResults req st) = cancelCalled st"
  by (induction req st rule: initResults.induct) (simp_all add: updateStatus_def)


lemma recorded_split:
  "recorded loc oc = (case dlRecorded loc oc of Some e \<Rightarrow> Some e | None \<Rightarrow> wtRecorded loc oc)"
  by (cases oc) (simp_all add: recorded_def dlRecorded_def wtRecorded_def)

lemma errOf_fileName:
  "errOf (st\<lparr>result := AList.map_entry i (\<lambda>r. r\<lparr>FileName := f\<rparr>) (result st)\<rparr>) k = errOf st k"
  by (simp add: errOf_def map_of_map_entry split: option.splits)


lemma start_keys:
  "map fst (result (fst (startDownloads loc c d req st sp))) = map fst (result st)"
  by (induction loc c d req st sp rule: startDownloads.induct)
     (simp_all add: Let_def handleError_keys map_fst_map_entry split: sum.splits)

lemma start_cancel:
  "cancelCalled (fst (startDownloads loc c d req st sp)) =
     (cancelCalled st \<or> (\<not> c \<and> (\<exists>(i, it) \<in> set (attempted c d req). isl (downloadCall (d i it)))))"
proof (induction loc c d req st sp rule: startDownloads.induct)
  case (1 loc c d st sp)
  then show ?case by simp
next
  case (2 loc c d i it req st sp)
  show ?case
  proof (cases "downloadCall (d i it)")
    case (Inl err)
    show ?thesis
    proof (cases c)
      case True
      with Inl "2.IH"(1)[OF Inl refl] show ?thesis
        by (simp add: Let_def handleError_cancel)
    next
      case False
      with Inl show ?thesis
        by (simp add: Let_def handleError_cancel)
    qed
  next
    case (Inr f)
    with "2.IH"(2)[OF Inr] show ?thesis
      by simp
  qed
qed

lemma start_spawned:
  "snd (startDownloads loc c d req st sp) =
     sp @ map (\<lambda>(i, it). (i, d i it))
            (filter (\<lambda>(i, it). \<not> isl (downloadCall (d i it))) (attempted c d req))"
proof (induction loc c d req st sp rule: startDownloads.induct)
  case (1 loc c d st sp)
  then show ?case by simp
next
  case (2 loc c d i it req st sp)
  show ?case
  proof (cases "downloadCall (d i it)")
    case (Inl err)
    show ?thesis
    proof (cases c)
      case True
      with Inl "2.IH"(1)[OF Inl refl] show ?thesis
        by (simp add: Let_def)
    next
      case False
      with Inl show ?thesis
        by (simp add: Let_def)
    qed
  next
    case (Inr f)
    with "2.IH"(2)[OF Inr] show ?thesis
      by simp
  qed
qed

lemma attempted_keys: "k \<notin> fst ` set req \<Longrightarrow> map_of (attempted c d req) k = None"
  using attempted_subset[of c d req] by (force simp: map_of_eq_None_iff)

lemma start_errOf:
  "distinct (map fst req) \<Longrightarrow>
   errOf (fst (startDownloads loc c d req st sp)) k =
     (case map_of (attempted c d req) k of
        None \<Rightarrow> errOf st k
      | Some it \<Rightarrow> (case dlRecorded loc (d k it) of
                     None \<Rightarrow> errOf st k
                   | Some e \<Rightarrow> map_option (\<lambda>_. e) (errOf st k)))"
proof (induction loc c d req st sp rule: startDownloads.induct)
  case (1 loc c d st sp)
  then show ?case by simp
next
  case (2 loc c d i it req st sp)
  from "2.prems" have ni: "i \<notin> fst ` set req" and dist: "distinct (map fst req)" by auto
  note tail = attempted_keys[OF ni, of c d]
  show ?case
  proof (cases "downloadCall (d i it)")
    case (Inl err)
    show ?thesis
    proof (cases c)
      case True
      with Inl "2.IH"(1)[OF Inl refl _ dist] tail show ?thesis
        by (auto simp add: Let_def handleError_errOf dlRecorded_def split: option.splits)
    next
      case False
      with Inl show ?thesis
        by (auto simp add: Let_def handleError_errOf dlRecorded_def split: option.splits)
    qed
  next
    case (Inr f)
    with "2.IH"(2)[OF Inr dist] tail show ?thesis
      by (auto simp add: errOf_fileName dlRecorded_def split: option.splits)
  qed
qed



lemma errOf_updateStatus: "errOf (updateStatus st i s e) k = errOf st k"
  by (simp add: errOf_def updateStatus_def)


lemma wait_keys:
  "map fst (result (waitDownloads loc c sp st)) = map fst (result st)"
  by (induction loc c sp st rule: waitDownloads.induct)
     (simp_all add: handleError_keys updateStatus_def split: option.splits)

lemma wait_cancel:
  "cancelCalled (waitDownloads loc c sp st) =
     (cancelCalled st \<or> (\<not> c \<and> (\<exists>(i, oc) \<in> set sp. waitCall oc \<noteq> None)))"
proof (induction loc c sp st rule: waitDownloads.induct)
  case (1 loc c st)
  then show ?case by simp
next
  case (2 loc c i oc sp st)
  show ?case
  proof (cases "waitCall oc")
    case None
    with "2.IH" show ?thesis by (simp add: updateStatus_def)
  next
    case (Some err)
    with "2.IH" show ?thesis by (auto simp add: handleError_cancel)
  qed
qed

lemma map_of_absent: "k \<notin> fst ` set xs \<Longrightarrow> map_of xs k = None"
  by (simp add: map_of_eq_None_iff)

lemma wait_errOf:
  "distinct (map fst sp) \<Longrightarrow>
   errOf (waitDownloads loc c sp st) k =
     (case map_of sp k of
        None \<Rightarrow> errOf st k
      | Some oc \<Rightarrow> (case wtRecorded loc oc of
                     None \<Rightarrow> errOf st k
                   | Some e \<Rightarrow> map_option (\<lambda>_. e) (errOf st k)))"
proof (induction loc c sp st rule: waitDownloads.induct)
  case (1 loc c st)
  then show ?case by simp
next
  case (2 loc c i oc sp st)
  from "2.prems" have ni: "i \<notin> fst ` set sp" and dist: "distinct (map fst sp)" by auto
  note tail = map_of_absent[OF ni]
  show ?case
  proof (cases "waitCall oc")
    case None
    with "2.IH"[OF dist] tail show ?thesis
      by (auto simp add: errOf_updateStatus wtRecorded_def split: option.splits)
  next
    case (Some err)
    with "2.IH"[OF dist] tail show ?thesis
      by (auto simp add: handleError_errOf wtRecorded_def split: option.splits)
  qed
qed


lemma markCanceled_step: "markCanceled loc (i # ids) st = markCanceled loc ids (markStep loc i st)"
  by (simp add: markStep_def)

lemma markStep_keys: "map fst (result (markStep loc i st)) = map fst (result st)"
  by (simp add: markStep_def Let_def updateStatus_def map_fst_map_entry split: option.splits)

lemma markStep_cancel: "cancelCalled (markStep loc i st) = cancelCalled st"
  by (simp add: markStep_def Let_def updateStatus_def split: option.splits)

lemma markStep_errOf:
  "errOf (markStep loc i st) k =
     (if k = i \<and> errOf st k = Some [] then Some (Wrap loc contextCanceled) else errOf st k)"
  by (auto simp add: markStep_def Let_def updateStatus_def errOf_def map_of_map_entry split: option.splits)


lemma mark_keys: "map fst (result (markCanceled loc ids st)) = map fst (result st)"
proof (induction ids arbitrary: st)
  case Nil then show ?case by simp
next
  case (Cons i ids)
  show ?case unfolding markCanceled_step by (simp add: Cons.IH markStep_keys)
qed

lemma mark_cancel: "cancelCalled (markCanceled loc ids st) = cancelCalled st"
proof (induction ids arbitrary: st)
  case Nil then show ?case by simp
next
  case (Cons i ids)
  show ?case unfolding markCanceled_step by (simp add: Cons.IH markStep_cancel)
qed

lemma mark_errOf:
  "errOf (markCanceled loc ids st) k =
     (if k \<in> set ids \<and> errOf st k = Some [] then Some (Wrap loc contextCanceled) else errOf st k)"
proof (induction ids arbitrary: st)
  case Nil then show ?case by simp
next
  case (Cons i ids)
  show ?case unfolding markCanceled_step
    by (auto simp add: Cons.IH markStep_errOf Wrap_nonempty)
qed



lemma attempted_prefix: "prefix (attempted c d req) req"
  by (induction req) (auto split: sum.splits)

lemma attempted_distinct: "distinct (map fst req) \<Longrightarrow> distinct (map fst (attempted c d req))"
proof -
  assume d: "distinct (map fst req)"
  from attempted_prefix[of c d req] obtain zs where "req = attempted c d req @ zs"
    by (auto simp: prefix_def)
  then have "map fst req = map fst (attempted c d req) @ map fst zs"
    by (metis map_append)
  with d show ?thesis by (metis distinct_append)
qed

lemma spawnedOf_keys: "map fst (spawnedOf d att) = map fst (filter (\<lambda>(i, it). \<not> isl (downloadCall (d i it))) att)"
  by (induction att) (auto simp: spawnedOf_def)

lemma spawnedOf_distinct: "distinct (map fst att) \<Longrightarrow> distinct (map fst (spawnedOf d att))"
  unfolding spawnedOf_keys by (induction att) auto

lemma spawnedOf_map_of:
  "distinct (map fst att) \<Longrightarrow>
   map_of (spawnedOf d att) k =
     (case map_of att k of
        None \<Rightarrow> None
      | Some it \<Rightarrow> if isl (downloadCall (d k it)) then None else Some (d k it))"
proof (induction att)
  case Nil then show ?case by (simp add: spawnedOf_def)
next
  case (Cons a att)
  obtain i it where a: "a = (i, it)" by (cases a)
  from Cons.prems have ni: "i \<notin> fst ` set att" and dist: "distinct (map fst att)" by (auto simp: a)
  have sub: "fst ` set (spawnedOf d att) \<subseteq> fst ` set att"
    by (force simp: spawnedOf_def)
  with ni have "map_of (spawnedOf d att) i = None" by (auto simp: map_of_eq_None_iff)
  moreover have "spawnedOf d (a # att) =
        (if isl (downloadCall (d i it)) then spawnedOf d att else (i, d i it) # spawnedOf d att)"
    by (simp add: spawnedOf_def a)
  ultimately show ?case using Cons.IH[OF dist] map_of_absent[OF ni]
    by (auto simp: a split: option.splits)
qed

lemma spawnedOf_wait_exists:
  "(\<exists>(i, oc) \<in> set (spawnedOf d att). waitCall oc \<noteq> None) =
   (\<exists>(i, it) \<in> set att. \<not> isl (downloadCall (d i it)) \<and> waitCall (d i it) \<noteq> None)"
  by (auto simp: spawnedOf_def)

lemma failure_cases:
  "(failure oc \<noteq> None) = (isl (downloadCall oc) \<or> (\<not> isl (downloadCall oc) \<and> waitCall oc \<noteq> None))"
  by (cases oc) simp_all


lemma downloadState_phases:
  "downloadState loc pc request c d =
     (if cancelCalled (phase2 loc request c d) \<or> pc
      then markCanceled loc (map fst (result (phase2 loc request c d))) (phase2 loc request c d)
      else phase2 loc request c d)"
proof -
  obtain st1 sp where s: "startDownloads loc c d request (initResults request gd0) [] = (st1, sp)"
    by (cases "startDownloads loc c d request (initResults request gd0) []")
  have "sp = spawnedOf d (attempted c d request)"
    using start_spawned[of loc c d request "initResults request gd0" "[]"] s
    by (simp add: spawnedOf_def)
  then show ?thesis
    using s by (simp add: downloadState_def phase2_def gd0_def Let_def)
qed

lemma phase2_keys: "distinct (map fst request) \<Longrightarrow> map fst (result (phase2 loc request c d)) = map fst request"
  by (simp add: phase2_def wait_keys start_keys initResults_result gd0_def comp_def case_prod_unfold)

lemma phase2_cancel:
  "cancelCalled (phase2 loc request c d) =
     (\<not> c \<and> (\<exists>(i, it) \<in> set (attempted c d request). failure (d i it) \<noteq> None))"
proof -
  let ?S = "set (attempted c d request)"
  have "(\<exists>(i, it) \<in> ?S. failure (d i it) \<noteq> None) =
        ((\<exists>(i, it) \<in> ?S. isl (downloadCall (d i it))) \<or>
         (\<exists>(i, it) \<in> ?S. \<not> isl (downloadCall (d i it)) \<and> waitCall (d i it) \<noteq> None))"
    unfolding failure_cases by blast
  then show ?thesis
    unfolding phase2_def wait_cancel start_cancel initResults_cancel spawnedOf_wait_exists
    by (simp add: gd0_def) blast
qed

lemma init_errOf:
  "distinct (map fst request) \<Longrightarrow> (k, item) \<in> set request \<Longrightarrow> errOf (initResults request gd0) k = Some []"
proof -
  assume d: "distinct (map fst request)" and m: "(k, item) \<in> set request"
  have r: "result (initResults request gd0) = map (\<lambda>(i, it). (i, \<lparr>FileName = [], Error = []\<rparr>)) request"
    using initResults_result[OF d, of gd0] by (simp add: gd0_def)
  have "map_of (map (\<lambda>(i, it). (i, \<lparr>FileName = [], Error = []\<rparr>)) request) k = Some \<lparr>FileName = [], Error = []\<rparr>"
    using m by (induction request) auto
  then show ?thesis by (simp add: errOf_def r)
qed



lemma attempted_map_of:
  assumes "distinct (map fst request)" "(k, item) \<in> set request"
  shows "map_of (attempted c d request) k =
           (if (k, item) \<in> set (attempted c d request) then Some item else None)"
proof (cases "(k, item) \<in> set (attempted c d request)")
  case True
  then show ?thesis using attempted_distinct[OF assms(1), of c d] by simp
next
  case False
  have "map_of (attempted c d request) k = None"
  proof (rule ccontr)
    assume "map_of (attempted c d request) k \<noteq> None"
    then obtain it where "map_of (attempted c d request) k = Some it" by auto
    then have m: "(k, it) \<in> set (attempted c d request)" by (rule map_of_SomeD)
    with attempted_subset[of c d request] have "(k, it) \<in> set request" by auto
    with assms have "it = item" by (meson eq_key_imp_eq_value)
    with m False show False by simp
  qed
  with False show ?thesis by simp
qed

lemma phase2_errOf:
  assumes "distinct (map fst request)" "(k, item) \<in> set request"
  shows "errOf (phase2 loc request c d) k =
           Some (case recordedFor loc c d request k item of Some e \<Rightarrow> e | None \<Rightarrow> [])"
proof -
  note sd = spawnedOf_distinct[OF attempted_distinct[OF assms(1), of c d], of d]
  note sm = spawnedOf_map_of[OF attempted_distinct[OF assms(1), of c d], of d k]
  note am = attempted_map_of[OF assms, of c d]
  note i0 = init_errOf[OF assms]
  show ?thesis
    unfolding phase2_def wait_errOf[OF sd] start_errOf[OF assms(1)] sm am i0 recordedFor_def
    by (cases "d k item")
       (auto simp add: recorded_def dlRecorded_def wtRecorded_def split: option.splits)
qed


lemma downloadState_cancel_phase2:
  "cancelCalled (downloadState loc pc request c d) = cancelCalled (phase2 loc request c d)"
  unfolding downloadState_phases by (simp add: mark_cancel)

lemma downloadState_cancel:
  "cancelCalled (downloadState loc pc request c d) =
     (\<not> c \<and> (\<exists>(i, it) \<in> set (attempted c d request). failure (d i it) \<noteq> None))"
  unfolding downloadState_cancel_phase2 by (rule phase2_cancel)

lemma downloadState_keys:
  "distinct (map fst request) \<Longrightarrow> map fst (result (downloadState loc pc request c d)) = map fst request"
  unfolding downloadState_phases by (simp add: mark_keys phase2_keys)

lemma recordedFor_nonempty: "recordedFor loc c d request k item = Some e \<Longrightarrow> e \<noteq> []"
  by (auto simp: recordedFor_def recorded_def Wrap_nonempty split: option.splits if_splits)

lemma downloadState_errOf:
  assumes "distinct (map fst request)" "(k, item) \<in> set request"
  shows "errOf (downloadState loc pc request c d) k =
           Some (case recordedFor loc c d request k item of
                   Some e \<Rightarrow> e
                 | None \<Rightarrow> if groupCancelled loc pc request c d then Wrap loc contextCanceled else [])"
proof (cases "cancelCalled (phase2 loc request c d) \<or> pc")
  case True
  have k: "k \<in> set (map fst request)" using assms(2) by force
  from True have g: "groupCancelled loc pc request c d"
    by (simp add: groupCancelled_def downloadState_cancel_phase2)
  from True have "errOf (downloadState loc pc request c d) k =
      errOf (markCanceled loc (map fst request) (phase2 loc request c d)) k"
    by (simp add: downloadState_phases phase2_keys[OF assms(1)])
  then show ?thesis using g k recordedFor_nonempty[of loc c d request k item]
    by (cases "recordedFor loc c d request k item")
       (simp_all add: mark_errOf phase2_errOf[OF assms])
next
  case False
  then have g: "\<not> groupCancelled loc pc request c d"
    by (simp add: groupCancelled_def downloadState_cancel_phase2)
  from False have "downloadState loc pc request c d = phase2 loc request c d"
    by (simp add: downloadState_phases)
  then show ?thesis using g by (simp add: phase2_errOf[OF assms])
qed





lemma download_errOf:
  "map_option Error (map_of (download loc pc request c d) k) = errOf (downloadState loc pc request c d) k"
  by (simp add: download_def errOf_def)

subsection \<open>The claims on the group downloader\<close>


lemma sublist_eval:
  "sublist [] ys = True"
  "sublist (x # xs) [] = False"
  "sublist (x # xs) (y # ys) = (prefix (x # xs) (y # ys) \<or> sublist (x # xs) ys)"
  by (rule sublist_code)+



lemma attempted_all_continue: "attempted True d request = request"
  by (induction request) (auto split: sum.splits)

lemma attempted_all_no_failure:
  "\<not> (\<exists>(i, it) \<in> set (attempted False d request). failure (d i it) \<noteq> None) \<Longrightarrow>
   attempted False d request = request"
proof (induction request)
  case Nil then show ?case by simp
next
  case (Cons a request)
  obtain i it where a: "a = (i, it)" by (cases a)
  from Cons.prems have f: "failure (d i it) = None" by (simp add: a)
  then obtain fn where o: "d i it = Succeeds fn" by (cases "d i it") auto
  with Cons.prems have "\<not> (\<exists>(i, it) \<in> set (attempted False d request). failure (d i it) \<noteq> None)"
    by (simp add: a)
  from Cons.IH[OF this] show ?case by (simp add: a o)
qed

lemma not_cancelled_attempted:
  "\<not> groupCancelled loc pc request c d \<Longrightarrow> attempted c d request = request"
  unfolding groupCancelled_def downloadState_cancel
  by (cases c) (auto simp: attempted_all_continue intro: attempted_all_no_failure)




text \<open>
  Claim C10 says that the error of an entry is empty exactly when the item
  completed successfully and the group context was not cancelled. With
  \<open>continueOnError = true\<close>, an item whose \<^verbatim>\<open>Wait\<close> fails with an error
  that contains \<open>context canceled\<close> while the download context is not
  cancelled is neither stored by \<^verbatim>\<open>handleError\<close> nor marked by the last
  loop: its error stays empty although it failed.
\<close>
theorem empty_error_iff_success_counterexample:
  "map_option Error
     (map_of (download ''l'' False [(''a'', ())] True (\<lambda>i p. WaitFails ''f'' ''context canceled'')) ''a'')
     = Some []
   \<and> failure (WaitFails ''f'' ''context canceled'') = Some ''context canceled''
   \<and> \<not> groupCancelled ''l'' False [(''a'', ())] True (\<lambda>i p. WaitFails ''f'' ''context canceled'')"
  by (simp add: download_def downloadState_def groupCancelled_def
        updateStatus_def handleError_def Let_def Wrap_def isCancelError_def contextCanceled_def
        DownloadingStatus_def DownloadedStatus_def ErrorStatus_def sublist_eval)

text \<open>
  Claim C10, amended. The result has exactly the ids of the request, in every
  run. The error of an entry is empty if and only if the download context was not
  cancelled and the item did not fail with a non-cancellation error (it
  completed successfully, or it failed with an error that contains the
  cancellation sentinel).
\<close>
theorem result_ids_and_empty_error:
  assumes "distinct (map fst request)" and "(k, item) \<in> set request"
  shows "map fst (download loc pc request continueOnError downloader) = map fst request
       \<and> (map_option Error (map_of (download loc pc request continueOnError downloader) k) = Some []
            \<longleftrightarrow> \<not> groupCancelled loc pc request continueOnError downloader
                \<and> recorded loc (downloader k item) = None)"
proof -
  have keys: "map fst (download loc pc request continueOnError downloader) = map fst request"
    by (simp add: download_def downloadState_keys[OF assms(1)])
  have eq: "recordedFor loc continueOnError downloader request k item = recorded loc (downloader k item)"
    if "\<not> groupCancelled loc pc request continueOnError downloader"
    using not_cancelled_attempted[OF that] assms(2) by (simp add: recordedFor_def)
  show ?thesis
    using keys eq recordedFor_nonempty[of loc continueOnError downloader request k item]
    by (auto simp add: download_errOf downloadState_errOf[OF assms] Wrap_nonempty split: option.splits)
qed

theorem result_ids_and_empty_error_witness:
  "distinct (map fst exampleRequest) \<and> (''c'', ()) \<in> set exampleRequest
   \<and> map fst (download ''l'' False exampleRequest True exampleDownloader) = [''a'', ''b'', ''c'']
   \<and> map_option Error (map_of (download ''l'' False exampleRequest True exampleDownloader) ''c'') = Some []"
proof -
  have h1: "distinct (map fst exampleRequest)" by (simp add: exampleRequest_def)
  have h2: "(''c'', ()) \<in> set exampleRequest" by (simp add: exampleRequest_def)
  have g: "\<not> groupCancelled ''l'' False exampleRequest True exampleDownloader"
    by (simp add: groupCancelled_def downloadState_cancel)
  have r: "recorded ''l'' (exampleDownloader ''c'' ()) = None"
    by (simp add: exampleDownloader_def recorded_def)
  from result_ids_and_empty_error[OF h1 h2, of "''l''" False True exampleDownloader]
  have k: "map fst (download ''l'' False exampleRequest True exampleDownloader) = map fst exampleRequest"
    and iff: "map_option Error (map_of (download ''l'' False exampleRequest True exampleDownloader) ''c'') = Some []
            \<longleftrightarrow> \<not> groupCancelled ''l'' False exampleRequest True exampleDownloader
                \<and> recorded ''l'' (exampleDownloader ''c'' ()) = None"
    by blast+
  from iff g r
  have e: "map_option Error (map_of (download ''l'' False exampleRequest True exampleDownloader) ''c'') = Some []"
    by blast
  have k': "map fst (download ''l'' False exampleRequest True exampleDownloader) = [''a'', ''b'', ''c'']"
    unfolding k by (simp add: exampleRequest_def)
  show ?thesis by (intro conjI h1 h2 k' e)
qed

section \<open>Properties of the launcher\<close>

subsection \<open>Device accounting\<close>









lemma resetDevices_zero:
  "list_all (\<lambda>d. allocatedCount d = 0) (availableDevices (resetDevices node))"
  by (simp add: resetDevices_def list_all_iff)






































lemma rebEnv_nonNegative: "nonNegativeShares rebEnv"
  by (simp add: nonNegativeShares_def rebEnv_def testEnv_def)


end
